theory Spec2Isabelle
  imports Main "HOL-Library.Char_ord" "HOL-Library.List_Lexorder" "HOL-Library.Multiset"
begin

section \<open>Data of the timetable screen (App.tsx)\<close>

text \<open>
  \<^verbatim>\<open>interface TimetableItem { id: string; time: string; task: string }\<close> and
  \<^verbatim>\<open>interface TimetableList { id: string; name: string; tasks: TimetableItem[] }\<close>.
  The field \<open>id\<close> is written \<open>item_id\<close> and \<open>list_id\<close>, since \<open>id\<close> is the identity
  function of HOL.
\<close>

record TimetableItem =
  item_id :: string
  time :: string
  task :: string

record TimetableList =
  list_id :: string
  name :: string
  tasks :: "TimetableItem list"

text \<open>
  A JavaScript number as far as this code uses one: an integer, or \<open>None\<close> for NaN.
  Time values stay far inside the range of \<open>Date\<close>, so no clipping is modelled.
\<close>

type_synonym number = "int option"

section \<open>The pieces of the JavaScript library the code calls\<close>

definition isDigit :: "char \<Rightarrow> bool" where
  "isDigit c = (c \<in> set ''0123456789'')"

definition digit_val :: "char \<Rightarrow> nat" where
  "digit_val c = of_char c - 48"

text \<open>The value of a string of decimal digits, most significant digit first.\<close>

definition decimal :: "string \<Rightarrow> nat" where
  "decimal s = foldl (\<lambda>acc c. 10 * acc + digit_val c) 0 s"

text \<open>
  \<open>Number(s)\<close> on a field of decimal digits, which is what the guard of \<open>handleSaveTask\<close>
  admits, and on the empty field, which is 0. Text that is no numeric literal gives NaN.
  Signed, fractional, hexadecimal and blank-padded literals are outside this model and
  are answered NaN as well.
\<close>

definition Number :: "string \<Rightarrow> number" where
  "Number s = (if s = [] then Some 0
               else if list_all isDigit s then Some (int (decimal s)) else None)"

text \<open>\<open>s.split(':')\<close>: the fields between the colons; never the empty array.\<close>

fun split_colon :: "string \<Rightarrow> string list" where
  "split_colon [] = [ [] ]"
| "split_colon (c # cs) =
     (if c = CHR '':'' then [] # split_colon cs
      else (case split_colon cs of
              [] \<Rightarrow> [ [c] ]
            | f # fs \<Rightarrow> (c # f) # fs))"

text \<open>
  \<open>const [hour, minute] = fields.map(Number)\<close>: the first two elements of the mapped
  array; an element that is missing is \<open>undefined\<close>, which every later use turns
  into NaN.
\<close>

definition first_two :: "number list \<Rightarrow> number \<times> number" where
  "first_two ns = (case ns of
                     [] \<Rightarrow> (None, None)
                   | [h] \<Rightarrow> (h, None)
                   | h # m # _ \<Rightarrow> (h, m))"

definition hour_minute :: "string \<Rightarrow> number \<times> number" where
  "hour_minute t = first_two (map Number (split_colon t))"

definition digit_char :: "nat \<Rightarrow> char" where
  "digit_char d = ''0123456789'' ! d"

text \<open>The decimal digits of a natural number.\<close>

fun digits_of :: "nat \<Rightarrow> string" where
  "digits_of n = (if n < 10 then [digit_char n]
                  else digits_of (n div 10) @ [digit_char (n mod 10)])"

text \<open>\<open>String(n)\<close> for a number of this model.\<close>

definition String_of :: "number \<Rightarrow> string" where
  "String_of n = (case n of
                    None \<Rightarrow> ''NaN''
                  | Some i \<Rightarrow> if i < 0 then CHR ''-'' # digits_of (nat (- i))
                              else digits_of (nat i))"

definition padStart2 :: "string \<Rightarrow> string" where
  "padStart2 s = replicate (2 - length s) CHR ''0'' @ s"

section \<open>Dates\<close>

text \<open>
  A \<open>Date\<close> holds a time value: milliseconds since the epoch in UTC, or NaN. The local
  zone is given by two functions, the two modes of \<open>LocalTZA\<close>: the offset (milliseconds
  east of UTC) in force at an instant of UTC, and the offset with which a local time is
  read back. They differ around a change of offset (daylight saving), where a skipped or
  repeated local time is read with the offset before the change.
\<close>

record zone =
  offset_at :: "int \<Rightarrow> int"
  offset_of_local :: "int \<Rightarrow> int"

definition msPerDay :: int where
  "msPerDay = 86400000"

definition msPerHour :: int where
  "msPerHour = 3600000"

definition msPerMinute :: int where
  "msPerMinute = 60000"

definition LocalTime :: "zone \<Rightarrow> int \<Rightarrow> int" where
  "LocalTime z t = t + offset_at z t"

definition UTC :: "zone \<Rightarrow> int \<Rightarrow> int" where
  "UTC z t = t - offset_of_local z t"

definition Day :: "int \<Rightarrow> int" where
  "Day t = t div msPerDay"

definition TimeWithinDay :: "int \<Rightarrow> int" where
  "TimeWithinDay t = t mod msPerDay"

text \<open>\<open>TimeClip\<close>: a time value beyond 8.64e15 ms on either side of the epoch is NaN.\<close>

definition maxTime :: int where
  "maxTime = 8640000000000000"

definition TimeClip :: "int \<Rightarrow> number" where
  "TimeClip t = (if maxTime < \<bar>t\<bar> then None else Some t)"



text \<open>
  \<open>d.setHours(hour, minute, 0, 0)\<close>: \<open>TimeClip(UTC(MakeDate(Day(LocalTime(t)),
  MakeTime(hour, minute, 0, 0))))\<close>. The local day of \<open>d\<close> is kept and the time within the
  day is replaced; hours and minutes beyond a day carry over. NaN in any place gives an
  invalid date.
\<close>

definition setHours :: "zone \<Rightarrow> number \<Rightarrow> number \<Rightarrow> number \<Rightarrow> number" where
  "setHours z d hour minute =
     (case (d, hour, minute) of
        (Some t, Some h, Some m) \<Rightarrow>
          TimeClip (UTC z (Day (LocalTime z t) * msPerDay + (h * msPerHour + m * msPerMinute)))
      | _ \<Rightarrow> None)"

text \<open>
  \<open>d.setDate(d.getDate() + 1)\<close>: \<open>TimeClip(UTC(MakeDate(MakeDay(year, month, date + 1),
  TimeWithinDay(LocalTime(t)))))\<close> with the year, month and date of the local time. The
  day after the local date is the next day number (a date past the end of the month
  carries into the next month), so the local time moves by one calendar day; how long
  that is in UTC depends on the offsets.
\<close>

definition setDate_next :: "zone \<Rightarrow> number \<Rightarrow> number" where
  "setDate_next z d =
     (case d of
        None \<Rightarrow> None
      | Some t \<Rightarrow>
          TimeClip (UTC z ((Day (LocalTime z t) + 1) * msPerDay + TimeWithinDay (LocalTime z t))))"

text \<open>A zone whose offset never changes.\<close>

definition fixed_zone :: "int \<Rightarrow> zone" where
  "fixed_zone off = \<lparr>offset_at = (\<lambda>t. off), offset_of_local = (\<lambda>t. off)\<rparr>"

text \<open>\<open>a < b\<close> and \<open>a > b\<close> on numbers: false whenever one side is NaN.\<close>

definition js_less :: "number \<Rightarrow> number \<Rightarrow> bool" where
  "js_less a b = (case (a, b) of (Some x, Some y) \<Rightarrow> x < y | _ \<Rightarrow> False)"

definition js_ge :: "number \<Rightarrow> number \<Rightarrow> bool" where
  "js_ge a b = (case (a, b) of (Some x, Some y) \<Rightarrow> y \<le> x | _ \<Rightarrow> False)"

text \<open>\<open>a % b\<close> for a positive \<open>b\<close>: the remainder has the sign of \<open>a\<close>.\<close>

definition js_rem :: "number \<Rightarrow> int \<Rightarrow> number" where
  "js_rem a b = map_option (\<lambda>x. if 0 \<le> x then x mod b else - ((- x) mod b)) a"

section \<open>The notification port and the rest of the outside world\<close>

text \<open>
  The calls the two screens make on notifee. A trigger notification carries its id,
  title, body and channel, the timestamp of the trigger and whether it repeats daily.
\<close>

datatype port_op =
    RequestPermission
  | CreateChannel string string
  | CancelAllNotifications
  | CreateTriggerNotification string string string string number bool
  | CancelNotification string

text \<open>
  The world outside the component: the calls issued on the port so far (oldest first),
  the trigger notifications that are live at the port, the number of clock readings
  taken, what went to \<open>console.error\<close> and to \<open>Alert.alert\<close> (the titles), and the
  key/value store behind \<open>AsyncStorage\<close>.
\<close>

record world =
  calls :: "port_op list"
  live :: "string \<rightharpoonup> port_op"
  reads :: nat
  console :: "string list"
  alerts :: "string list"
  storage :: "string \<rightharpoonup> string"

text \<open>
  What the component cannot decide: which port calls reject (by the position of the
  call among all port calls), what the clock shows at each reading, the local zone, how
  the engine parses a date string (\<open>None\<close> is an invalid date), and whether the storage
  call of the run rejects.
\<close>

record env =
  rejects :: "nat \<Rightarrow> bool"
  clock :: "nat \<Rightarrow> int"
  tz :: zone
  Date_parse :: "string \<Rightarrow> number"
  storage_rejects :: bool

text \<open>What an acknowledged call does to the live notifications.\<close>

fun port_effect :: "port_op \<Rightarrow> (string \<rightharpoonup> port_op) \<Rightarrow> (string \<rightharpoonup> port_op)" where
  "port_effect CancelAllNotifications m = Map.empty"
| "port_effect (CreateTriggerNotification i t b c ts r) m =
     m(i \<mapsto> CreateTriggerNotification i t b c ts r)"
| "port_effect (CancelNotification i) m = m(i := None)"
| "port_effect _ m = m"

text \<open>
  An awaited port call: the call is recorded; it is either acknowledged (\<open>True\<close>), with
  its effect on the port, or it rejects (\<open>False\<close>), which the caller sees as a throw.
\<close>

definition port_call :: "env \<Rightarrow> port_op \<Rightarrow> world \<Rightarrow> bool \<times> world" where
  "port_call e op w =
     (if rejects e (length (calls w))
      then (False, w\<lparr>calls := calls w @ [op]\<rparr>)
      else (True, w\<lparr>calls := calls w @ [op], live := port_effect op (live w)\<rparr>))"

text \<open>\<open>new Date()\<close> and \<open>Date.now()\<close>: one reading of the clock.\<close>

definition read_clock :: "env \<Rightarrow> world \<Rightarrow> int \<times> world" where
  "read_clock e w = (clock e (reads w), w\<lparr>reads := Suc (reads w)\<rparr>)"

definition console_error :: "string \<Rightarrow> world \<Rightarrow> world" where
  "console_error msg w = w\<lparr>console := console w @ [msg]\<rparr>"

definition Alert_alert :: "string \<Rightarrow> world \<Rightarrow> world" where
  "Alert_alert title w = w\<lparr>alerts := alerts w @ [title]\<rparr>"

section \<open>The timetable screen\<close>

record app_state =
  lists :: "TimetableList list"
  activeListId :: "string option"
  taskModalVisible :: bool
  isEditingTask :: "TimetableItem option"
  currentTime :: string
  currentTask :: string

text \<open>\<open>lists.find(l => l.id === activeListId)\<close>\<close>

definition getActiveList :: "app_state \<Rightarrow> TimetableList option" where
  "getActiveList st = find (\<lambda>l. Some (list_id l) = activeListId st) (lists st)"

definition formatTime12Hour :: "string \<Rightarrow> string" where
  "formatTime12Hour time24 =
     (if time24 = [] \<or> CHR '':'' \<notin> set time24 then ''Invalid Time''
      else (case hour_minute time24 of (hour, minute) \<Rightarrow>
        (let ampm = (if js_ge hour (Some 12) then ''PM'' else ''AM'');
             hour12 = (case js_rem hour 12 of
                         None \<Rightarrow> Some 12
                       | Some r \<Rightarrow> if r = 0 then Some 12 else Some r)
         in padStart2 (String_of hour12) @ '':'' @ padStart2 (String_of minute)
              @ '' '' @ ampm)))"

text \<open>
  The body of the loop up to the port call: the trigger timestamp for one time string,
  from the reading \<open>created\<close> of \<open>new Date()\<close> and the reading \<open>now\<close> of \<open>Date.now()\<close>.
\<close>

definition triggerTimestamp :: "zone \<Rightarrow> number \<Rightarrow> number \<Rightarrow> int \<Rightarrow> int \<Rightarrow> number" where
  "triggerTimestamp z hour minute created now =
     (let triggerDate = setHours z (Some created) hour minute
      in if js_less triggerDate (Some now) then setDate_next z triggerDate
         else triggerDate)"

definition triggerOp :: "TimetableList \<Rightarrow> TimetableItem \<Rightarrow> number \<Rightarrow> port_op" where
  "triggerOp activeList item ts =
     CreateTriggerNotification (item_id item)
       (''Time for: '' @ task item)
       (''It's '' @ formatTime12Hour (time item) @ ''. From your ''
          @ [CHR 0x27] @ name activeList @ [CHR 0x27] @ '' list.'')
       ''timetable-reminders'' ts True"

text \<open>
  \<open>for (const item of activeList.tasks) { ... await createTriggerNotification ... }\<close>:
  \<open>False\<close> when a call rejected, which leaves the loop at once.
\<close>

fun schedule_loop :: "env \<Rightarrow> TimetableList \<Rightarrow> TimetableItem list \<Rightarrow> world \<Rightarrow> bool \<times> world" where
  "schedule_loop e al [] w = (True, w)"
| "schedule_loop e al (item # rest) w =
     (let hm = hour_minute (time item);
          c1 = read_clock e w;
          c2 = read_clock e (snd c1);
          r = port_call e
                (triggerOp al item (triggerTimestamp (tz e) (fst hm) (snd hm) (fst c1) (fst c2)))
                (snd c2)
      in if fst r then schedule_loop e al rest (snd r) else (False, snd r))"

text \<open>The \<open>try\<close> block of \<open>scheduleAllNotifications\<close>; \<open>False\<close> is a throw.\<close>

definition schedule_try :: "env \<Rightarrow> TimetableList \<Rightarrow> world \<Rightarrow> bool \<times> world" where
  "schedule_try e al w =
     (let r1 = port_call e RequestPermission w in
      if \<not> fst r1 then (False, snd r1) else
      let r2 = port_call e (CreateChannel ''timetable-reminders'' ''Timetable Reminders'') (snd r1) in
      if \<not> fst r2 then (False, snd r2) else
      let r3 = port_call e CancelAllNotifications (snd r2) in
      if \<not> fst r3 then (False, snd r3) else
      let r4 = schedule_loop e al (tasks al) (snd r3) in
      if \<not> fst r4 then (False, snd r4)
      else (True, Alert_alert ''Notifications Scheduled!'' (snd r4)))"

definition scheduleAllNotifications :: "env \<Rightarrow> app_state \<Rightarrow> world \<Rightarrow> world" where
  "scheduleAllNotifications e st w =
     (case getActiveList st of
        None \<Rightarrow> Alert_alert ''No Tasks'' w
      | Some activeList \<Rightarrow>
          if tasks activeList = [] then Alert_alert ''No Tasks'' w
          else (case schedule_try e activeList w of
                  (True, w') \<Rightarrow> w'
                | (False, w') \<Rightarrow> console_error ''Error scheduling notifications:'' w'))"

subsection \<open>Loading and saving\<close>

text \<open>
  \<open>INITIAL_DATA\<close>; the id of the default list is drawn once by \<open>uuidv4()\<close> and is a
  parameter here.
\<close>

definition INITIAL_DATA :: "string \<Rightarrow> TimetableList list" where
  "INITIAL_DATA uid =
     [\<lparr>list_id = uid, name = ''Default Timetable'',
       tasks = [\<lparr>item_id = ''1'', time = ''06:00'', task = ''Wake up''\<rparr>,
                \<lparr>item_id = ''2'', time = ''06:15'', task = ''Go to walk''\<rparr>,
                \<lparr>item_id = ''3'', time = ''10:00'', task = ''Go to College''\<rparr>,
                \<lparr>item_id = ''4'', time = ''19:30'', task = ''Fresh up and have dinner''\<rparr>,
                \<lparr>item_id = ''5'', time = ''20:30'', task = ''Study new topics''\<rparr>]\<rparr>]"

definition STORAGE_KEY :: string where
  "STORAGE_KEY = ''@timetable_lists_v2''"

text \<open>
  \<open>loadData\<close>. \<open>JSON_parse\<close> is \<open>JSON.parse\<close> at the declared type \<open>TimetableList[]\<close>;
  \<open>None\<close> is its throw. \<open>setActiveListId(parsedLists[0].id)\<close> runs only for a
  non-empty array.
\<close>

definition loadData ::
  "(string \<Rightarrow> TimetableList list option) \<Rightarrow> string \<Rightarrow> env \<Rightarrow> app_state \<times> world \<Rightarrow> app_state \<times> world" where
  "loadData JSON_parse uid e sw =
     (case sw of (st, w) \<Rightarrow>
      let failed = (st\<lparr>lists := INITIAL_DATA uid\<rparr>, console_error ''Failed to load data.'' w)
      in if storage_rejects e then failed
         else (case storage w STORAGE_KEY of
                 None \<Rightarrow> (st\<lparr>lists := INITIAL_DATA uid, activeListId := Some uid\<rparr>, w)
               | Some storedData \<Rightarrow>
                   (case JSON_parse storedData of
                      None \<Rightarrow> failed
                    | Some parsedLists \<Rightarrow>
                        (case parsedLists of
                           [] \<Rightarrow> (st\<lparr>lists := parsedLists\<rparr>, w)
                         | l # _ \<Rightarrow> (st\<lparr>lists := parsedLists, activeListId := Some (list_id l)\<rparr>, w)))))"

text \<open>\<open>saveData\<close>: the state is set before the write is attempted.\<close>

definition saveData ::
  "(TimetableList list \<Rightarrow> string) \<Rightarrow> env \<Rightarrow> TimetableList list \<Rightarrow> app_state \<times> world \<Rightarrow> app_state \<times> world" where
  "saveData JSON_stringify e newLists sw =
     (case sw of (st, w) \<Rightarrow>
      let st1 = st\<lparr>lists := newLists\<rparr>;
          jsonValue = JSON_stringify newLists
      in if storage_rejects e then (st1, console_error ''Failed to save data.'' w)
         else (st1, w\<lparr>storage := (storage w)(STORAGE_KEY \<mapsto> jsonValue)\<rparr>))"

subsection \<open>Adding, editing and removing a task\<close>

text \<open>\<open>/^\d{2}:\d{2}$/.test(s)\<close>: two decimal digits, a colon, two decimal digits, nothing else.\<close>

fun test_HHMM :: "string \<Rightarrow> bool" where
  "test_HHMM [a, b, c, d, f] =
     (isDigit a \<and> isDigit b \<and> c = CHR '':'' \<and> isDigit d \<and> isDigit f)"
| "test_HHMM _ = False"

text \<open>
  \<open>a.localeCompare(b)\<close>, modelled as the comparison of the code units from left to
  right. On the strings the guard admits (digits around a colon in a fixed place) every
  collation agrees with it; for other text in stored data the engine's collation may
  differ.
\<close>

definition localeCompare :: "string \<Rightarrow> string \<Rightarrow> int" where
  "localeCompare a b = (if a < b then - 1 else if a = b then 0 else 1)"

text \<open>
  \<open>xs.sort(cmp)\<close>: a stable sort by the comparator, written as insertion from the
  right.
\<close>

fun insert_cmp :: "('a \<Rightarrow> 'a \<Rightarrow> int) \<Rightarrow> 'a \<Rightarrow> 'a list \<Rightarrow> 'a list" where
  "insert_cmp cmp x [] = [x]"
| "insert_cmp cmp x (y # ys) =
     (if cmp x y \<le> 0 then x # y # ys else y # insert_cmp cmp x ys)"

definition sort_cmp :: "('a \<Rightarrow> 'a \<Rightarrow> int) \<Rightarrow> 'a list \<Rightarrow> 'a list" where
  "sort_cmp cmp xs = foldr (insert_cmp cmp) xs []"

definition replace_tasks :: "app_state \<Rightarrow> TimetableItem list \<Rightarrow> TimetableList list" where
  "replace_tasks st updatedTasks =
     map (\<lambda>l. if Some (list_id l) = activeListId st then l\<lparr>tasks := updatedTasks\<rparr> else l)
       (lists st)"

text \<open>
  The tasks \<open>handleSaveTask\<close> hands to the sort: the edited task replaced, or the new
  task appended; \<open>uid\<close> is what \<open>uuidv4()\<close> gives for a new task.
\<close>

definition updated_tasks :: "string \<Rightarrow> app_state \<Rightarrow> TimetableList \<Rightarrow> TimetableItem list" where
  "updated_tasks uid st activeList =
     (case isEditingTask st of
        Some editing \<Rightarrow>
          map (\<lambda>t. if item_id t = item_id editing
                    then t\<lparr>time := currentTime st, task := currentTask st\<rparr> else t)
            (tasks activeList)
      | None \<Rightarrow> tasks activeList @ [\<lparr>item_id = uid, time = currentTime st, task = currentTask st\<rparr>])"

definition handleSaveTask ::
  "(TimetableList list \<Rightarrow> string) \<Rightarrow> string \<Rightarrow> env \<Rightarrow> app_state \<times> world \<Rightarrow> app_state \<times> world" where
  "handleSaveTask JSON_stringify uid e sw =
     (case sw of (st, w) \<Rightarrow>
      if currentTask st = [] \<or> \<not> test_HHMM (currentTime st)
      then (st, Alert_alert ''Invalid Input'' w)
      else (case getActiveList st of
              None \<Rightarrow> (st, w)
            | Some activeList \<Rightarrow>
                let updatedTasks = updated_tasks uid st activeList;
                    sortedTasks = sort_cmp (\<lambda>a b. localeCompare (time a) (time b)) updatedTasks;
                    saved = saveData JSON_stringify e (replace_tasks st sortedTasks) (st, w)
                in ((fst saved)\<lparr>taskModalVisible := False\<rparr>, snd saved)))"

definition handleDeleteTask ::
  "(TimetableList list \<Rightarrow> string) \<Rightarrow> string \<Rightarrow> env \<Rightarrow> app_state \<times> world \<Rightarrow> app_state \<times> world" where
  "handleDeleteTask JSON_stringify taskId e sw =
     (case sw of (st, w) \<Rightarrow>
      case getActiveList st of
        None \<Rightarrow> (st, w)
      | Some activeList \<Rightarrow>
          saveData JSON_stringify e
            (replace_tasks st (filter (\<lambda>t. item_id t \<noteq> taskId) (tasks activeList))) (st, w))"

section \<open>The task manager screen\<close>

text \<open>
  \<open>interface Task\<close>; the optional timetable fields, which no code writes, are left out.
  \<open>createdAt\<close> is kept as the time value whose ISO text the source stores.
\<close>

datatype priority = Low | Medium | High

record Task =
  task_id :: string
  title :: string
  description :: "string option"
  completed :: bool
  priority :: priority
  dueDate :: "string option"
  dueTime :: "string option"
  project :: string
  tags :: "string list"
  createdAt :: int
  completedAt :: "int option"

record NewTaskState =
  new_title :: string
  new_description :: string
  new_priority :: priority
  new_dueDate :: string
  new_dueTime :: string
  new_project :: string
  new_tags :: "string list"

record manager_state =
  all_tasks :: "Task list"
  activeProject :: string
  showAddTask :: bool
  newTask :: NewTaskState

definition TASKS_KEY :: string where
  "TASKS_KEY = ''@todoist_tasks_v2''"

text \<open>
  \<open>loadTasks\<close>: \<open>if (storedTasks)\<close> holds for a stored text that is not empty.
\<close>

definition loadTasks ::
  "(string \<Rightarrow> Task list option) \<Rightarrow> env \<Rightarrow> manager_state \<times> world \<Rightarrow> manager_state \<times> world" where
  "loadTasks JSON_parse e sw =
     (case sw of (st, w) \<Rightarrow>
      if storage_rejects e then (st, console_error ''Error loading tasks:'' w)
      else (case storage w TASKS_KEY of
              None \<Rightarrow> (st, w)
            | Some storedTasks \<Rightarrow>
                if storedTasks = [] then (st, w)
                else (case JSON_parse storedTasks of
                        None \<Rightarrow> (st, console_error ''Error loading tasks:'' w)
                      | Some ts \<Rightarrow> (st\<lparr>all_tasks := ts\<rparr>, w))))"

text \<open>\<open>saveTasks\<close>: the state is set after the write has been acknowledged.\<close>

definition saveTasks ::
  "(Task list \<Rightarrow> string) \<Rightarrow> env \<Rightarrow> Task list \<Rightarrow> manager_state \<times> world \<Rightarrow> manager_state \<times> world" where
  "saveTasks JSON_stringify e updatedTasks sw =
     (case sw of (st, w) \<Rightarrow>
      if storage_rejects e then (st, console_error ''Error saving tasks:'' w)
      else (st\<lparr>all_tasks := updatedTasks\<rparr>,
            w\<lparr>storage := (storage w)(TASKS_KEY \<mapsto> JSON_stringify updatedTasks)\<rparr>))"







definition non_empty :: "string \<Rightarrow> string option" where
  "non_empty s = (if s = [] then None else Some s)"



text \<open>
  \<open>deleteTask\<close>: the alert offers Cancel and Delete; only Delete runs the handler,
  which starts \<open>saveTasks\<close> and then \<open>notifee.cancelNotification(taskId)\<close>, whose result
  nobody awaits.
\<close>

datatype alert_button = Cancel_button | Delete_button

definition deleteTask ::
  "(Task list \<Rightarrow> string) \<Rightarrow> string \<Rightarrow> alert_button \<Rightarrow> env \<Rightarrow> manager_state \<times> world
     \<Rightarrow> manager_state \<times> world" where
  "deleteTask JSON_stringify taskId button e sw =
     (case sw of (st, w) \<Rightarrow>
      let w1 = Alert_alert ''Delete Task'' w
      in case button of
           Cancel_button \<Rightarrow> (st, w1)
         | Delete_button \<Rightarrow>
             (let saved = saveTasks JSON_stringify e
                            (filter (\<lambda>t. task_id t \<noteq> taskId) (all_tasks st)) (st, w1)
              in (fst saved, snd (port_call e (CancelNotification taskId) (snd saved)))))"


section \<open>Notions used to state the properties\<close>

text \<open>The id of the notification a call creates, if it creates one.\<close>

fun trigger_id :: "port_op \<Rightarrow> string option" where
  "trigger_id (CreateTriggerNotification i t b c ts r) = Some i"
| "trigger_id _ = None"

definition trigger_ids :: "port_op list \<Rightarrow> string list" where
  "trigger_ids ops = List.map_filter trigger_id ops"

text \<open>
  The calls the loop issues for a list of items when none rejects, the clock having been
  read \<open>r\<close> times before: one \<open>createTriggerNotification\<close> per item, in order.
\<close>

fun loop_ops :: "env \<Rightarrow> TimetableList \<Rightarrow> TimetableItem list \<Rightarrow> nat \<Rightarrow> port_op list" where
  "loop_ops e al [] r = []"
| "loop_ops e al (item # rest) r =
     triggerOp al item
       (triggerTimestamp (tz e) (fst (hour_minute (time item))) (snd (hour_minute (time item)))
          (clock e r) (clock e (Suc r)))
     # loop_ops e al rest (Suc (Suc r))"

text \<open>The port calls that one run of \<open>scheduleAllNotifications\<close> adds.\<close>

definition batch_calls :: "env \<Rightarrow> app_state \<Rightarrow> world \<Rightarrow> port_op list" where
  "batch_calls e st w = drop (length (calls w)) (calls (scheduleAllNotifications e st w))"

text \<open>The three calls before the loop; the last is the cancel-all.\<close>

definition batch_head :: "port_op list" where
  "batch_head = [RequestPermission,
                 CreateChannel ''timetable-reminders'' ''Timetable Reminders'',
                 CancelAllNotifications]"

text \<open>The item ids an operation names.\<close>

fun op_ids :: "port_op \<Rightarrow> string set" where
  "op_ids (CreateTriggerNotification i t b c ts r) = {i}"
| "op_ids (CancelNotification i) = {i}"
| "op_ids _ = {}"

text \<open>
  Sample data for the instances below: ports that reject no call, every call, or the
  call at one position, and a parser that always throws.
\<close>

definition no_reject :: "nat \<Rightarrow> bool" where
  "no_reject n = False"

definition all_reject :: "nat \<Rightarrow> bool" where
  "all_reject n = True"

definition reject_at :: "nat \<Rightarrow> nat \<Rightarrow> bool" where
  "reject_at k n = (n = k)"

definition parse_fails :: "string \<Rightarrow> 'a option" where
  "parse_fails s = None"

definition sample_env :: "(nat \<Rightarrow> bool) \<Rightarrow> env" where
  "sample_env rej = \<lparr>rejects = rej, clock = (\<lambda>n. 36000000), tz = fixed_zone 0,
                      Date_parse = (\<lambda>s. None), storage_rejects = False\<rparr>"

definition empty_world :: world where
  "empty_world = \<lparr>calls = [], live = Map.empty, reads = 0, console = [], alerts = [],
                   storage = Map.empty\<rparr>"

definition two_items :: TimetableList where
  "two_items = \<lparr>list_id = ''A'', name = ''Morning'',
                 tasks = [\<lparr>item_id = ''1'', time = ''06:00'', task = ''Wake up''\<rparr>,
                          \<lparr>item_id = ''2'', time = ''06:15'', task = ''Go to walk''\<rparr>]\<rparr>"

definition sample_state :: "TimetableList list \<Rightarrow> app_state" where
  "sample_state ls = \<lparr>lists = ls, activeListId = Some ''A'', taskModalVisible = False,
                       isEditingTask = None, currentTime = [], currentTask = []\<rparr>"

definition other_list :: TimetableList where
  "other_list = \<lparr>list_id = ''B'', name = ''Evening'',
                  tasks = [\<lparr>item_id = ''b1'', time = ''21:00'', task = ''Read''\<rparr>]\<rparr>"

definition world_with_b1 :: world where
  "world_with_b1 =
     empty_world\<lparr>live := [''b1'' \<mapsto> triggerOp other_list (hd (tasks other_list)) (Some 75600000)]\<rparr>"

definition error_line :: string where
  "error_line = ''Error scheduling notifications:''"



text \<open>
  A zone with a change of offset: five hours west of UTC until 2026-03-08 07:00 UTC, four
  hours west from then on (local times before 03:00 of that day are read back with the
  earlier offset).
\<close>

definition spring_zone :: zone where
  "spring_zone = \<lparr>offset_at = (\<lambda>t. if t < 1772953200000 then - 18000000 else - 14400000),
                   offset_of_local = (\<lambda>t. if t < 1772938800000 then - 18000000 else - 14400000)\<rparr>"

text \<open>The zero-padded text of a time of day.\<close>

definition HHMM :: "nat \<Rightarrow> nat \<Rightarrow> string" where
  "HHMM h m = padStart2 (digits_of h) @ '':'' @ padStart2 (digits_of m)"

text \<open>
  The strict machine format in the words of the specification: two zero-padded numeric
  fields separated by a single colon, hour in [0,23] and minute in [0,59].
\<close>

definition strict_HHMM :: "string \<Rightarrow> bool" where
  "strict_HHMM raw = list_ex (\<lambda>h. list_ex (\<lambda>m. raw = HHMM h m) [0..<60]) [0..<24]"

text \<open>More sample data: a stand-in for \<open>JSON.stringify\<close>, and the form being filled in.\<close>

definition sample_json :: "TimetableList list \<Rightarrow> string" where
  "sample_json ls = concat (map (\<lambda>l. list_id l @ concat (map time (tasks l))) ls)"

definition entering :: "string \<Rightarrow> string \<Rightarrow> app_state" where
  "entering tm txt = (sample_state [two_items])\<lparr>taskModalVisible := True, currentTime := tm,
                                                 currentTask := txt\<rparr>"

text \<open>The states the two components start in (\<open>useState\<close>).\<close>

definition initial_app_state :: app_state where
  "initial_app_state = \<lparr>lists = [], activeListId = None, taskModalVisible = False,
                         isEditingTask = None, currentTime = [], currentTask = []\<rparr>"

definition initial_manager_state :: manager_state where
  "initial_manager_state =
     \<lparr>all_tasks = [], activeProject = ''inbox'', showAddTask = False,
      newTask = \<lparr>new_title = [], new_description = [], new_priority = Medium,
                 new_dueDate = [], new_dueTime = [], new_project = ''inbox'', new_tags = []\<rparr>\<rparr>"


text \<open>Sample data for the task manager.\<close>

definition manager_env :: "bool \<Rightarrow> (nat \<Rightarrow> bool) \<Rightarrow> env" where
  "manager_env store_fails rej =
     \<lparr>rejects = rej, clock = (\<lambda>n. 100000000), tz = fixed_zone 0,
      Date_parse = (\<lambda>s. if s = ''1970-01-02'' then Some 86400000
                         else if s = ''1970-01-01'' then Some 0 else None),
      storage_rejects = store_fails\<rparr>"

definition tasks_json :: "Task list \<Rightarrow> string" where
  "tasks_json ts = concat (map task_id ts)"


definition sample_task :: Task where
  "sample_task = \<lparr>task_id = ''t1'', title = ''Buy milk'', description = None, completed = False,
                   priority = Medium, dueDate = None, dueTime = None, project = ''inbox'',
                   tags = [], createdAt = 0, completedAt = None\<rparr>"

definition scheduled_world :: world where
  "scheduled_world =
     scheduleAllNotifications (sample_env no_reject) (sample_state [two_items]) empty_world"

section \<open>Properties of the bulk reschedule\<close>

declare no_reject_def [simp] all_reject_def [simp] reject_at_def [simp] parse_fails_def [simp]

lemma trigger_ids_simps [simp]:
  "trigger_ids [] = []"
  "trigger_ids (ops @ ops') = trigger_ids ops @ trigger_ids ops'"
  "trigger_ids (triggerOp al item ts # ops) = item_id item # trigger_ids ops"
  "trigger_ids (RequestPermission # ops) = trigger_ids ops"
  "trigger_ids (CreateChannel a b # ops) = trigger_ids ops"
  "trigger_ids (CancelAllNotifications # ops) = trigger_ids ops"
  "trigger_ids (CancelNotification i # ops) = trigger_ids ops"
  by (simp_all add: trigger_ids_def List.map_filter_def triggerOp_def)

lemma port_call_simps [simp]:
  "fst (port_call e op w) = (\<not> rejects e (length (calls w)))"
  "calls (snd (port_call e op w)) = calls w @ [op]"
  "console (snd (port_call e op w)) = console w"
  "alerts (snd (port_call e op w)) = alerts w"
  "reads (snd (port_call e op w)) = reads w"
  "live (snd (port_call e op w)) =
     (if rejects e (length (calls w)) then live w else port_effect op (live w))"
  by (simp_all add: port_call_def)

lemma read_clock_simps [simp]:
  "fst (read_clock e w) = clock e (reads w)"
  "calls (snd (read_clock e w)) = calls w"
  "console (snd (read_clock e w)) = console w"
  "alerts (snd (read_clock e w)) = alerts w"
  "reads (snd (read_clock e w)) = Suc (reads w)"
  "live (snd (read_clock e w)) = live w"
  by (simp_all add: read_clock_def)

lemma dom_port_effect_triggerOp [simp]:
  "dom (port_effect (triggerOp al item ts) m) = insert (item_id item) (dom m)"
  by (simp add: triggerOp_def)

lemma length_loop_ops [simp]: "length (loop_ops e al items r) = length items"
  by (induction items arbitrary: r) simp_all

lemma trigger_ids_take_loop_ops [simp]:
  "trigger_ids (take j (loop_ops e al items r)) = map item_id (take j items)"
proof (induction items arbitrary: r j)
  case Nil
  then show ?case by simp
next
  case (Cons item rest)
  then show ?case by (cases j) simp_all
qed

lemma trigger_ids_loop_ops [simp]:
  "trigger_ids (loop_ops e al items r) = map item_id items"
  using trigger_ids_take_loop_ops [of "length items" e al items r] by simp

lemma cancelAll_notin_loop_ops [simp]:
  "CancelAllNotifications \<notin> set (loop_ops e al items r)"
  by (induction items arbitrary: r) (simp_all add: triggerOp_def)

lemma schedule_loop_quiet [simp]:
  "console (snd (schedule_loop e al items w)) = console w"
  "alerts (snd (schedule_loop e al items w)) = alerts w"
  by (induction items arbitrary: w) (simp_all add: Let_def)

lemma schedule_loop_all_ok:
  "\<forall>i < length items. \<not> rejects e (length (calls w) + i) \<Longrightarrow>
   fst (schedule_loop e al items w) \<and>
   calls (snd (schedule_loop e al items w)) = calls w @ loop_ops e al items (reads w) \<and>
   dom (live (snd (schedule_loop e al items w))) = dom (live w) \<union> item_id ` set items"
proof (induction items arbitrary: w)
  case Nil
  then show ?case by simp
next
  case (Cons item rest)
  let ?w3 = "snd (port_call e (triggerOp al item (triggerTimestamp (tz e) (fst (hour_minute (time item))) (snd (hour_minute (time item))) (fst (read_clock e w)) (fst (read_clock e (snd (read_clock e w)))))) (snd (read_clock e (snd (read_clock e w)))))"
  from Cons.prems have ok0: "\<not> rejects e (length (calls w))" by force
  from Cons.prems have "\<forall>i < length rest. \<not> rejects e (length (calls ?w3) + i)"
    by auto
  from Cons.IH [OF this] ok0 show ?case
    by (auto simp: Let_def)
qed

lemma schedule_loop_first_reject:
  "k < length items \<Longrightarrow> \<forall>i < k. \<not> rejects e (length (calls w) + i) \<Longrightarrow>
   rejects e (length (calls w) + k) \<Longrightarrow>
   \<not> fst (schedule_loop e al items w) \<and>
   calls (snd (schedule_loop e al items w)) = calls w @ take (Suc k) (loop_ops e al items (reads w)) \<and>
   dom (live (snd (schedule_loop e al items w))) = dom (live w) \<union> item_id ` set (take k items)"
proof (induction items arbitrary: w k)
  case Nil
  then show ?case by simp
next
  case (Cons item rest)
  let ?w3 = "snd (port_call e (triggerOp al item (triggerTimestamp (tz e) (fst (hour_minute (time item))) (snd (hour_minute (time item))) (fst (read_clock e w)) (fst (read_clock e (snd (read_clock e w)))))) (snd (read_clock e (snd (read_clock e w)))))"
  show ?case
  proof (cases k)
    case 0
    with Cons.prems show ?thesis by (simp add: Let_def)
  next
    case (Suc j)
    from Cons.prems Suc have ok0: "\<not> rejects e (length (calls w))" by force
    from Cons.prems Suc have a: "j < length rest" by simp
    from Cons.prems Suc have b: "\<forall>i < j. \<not> rejects e (length (calls ?w3) + i)"
      by auto
    from Cons.prems Suc have c: "rejects e (length (calls ?w3) + j)"
      by simp
    from Cons.IH [OF a b c] ok0 Suc show ?thesis
      by (auto simp: Let_def)
  qed
qed

lemma schedule_loop_prefix:
  "\<exists>j \<le> length items.
     calls (snd (schedule_loop e al items w)) = calls w @ take j (loop_ops e al items (reads w))"
proof (induction items arbitrary: w)
  case Nil
  then show ?case by simp
next
  case (Cons item rest)
  let ?w3 = "snd (port_call e (triggerOp al item (triggerTimestamp (tz e) (fst (hour_minute (time item))) (snd (hour_minute (time item))) (fst (read_clock e w)) (fst (read_clock e (snd (read_clock e w)))))) (snd (read_clock e (snd (read_clock e w)))))"
  show ?case
  proof (cases "rejects e (length (calls w))")
    case True
    then have "calls (snd (schedule_loop e al (item # rest) w))
               = calls w @ take 1 (loop_ops e al (item # rest) (reads w))"
      by (simp add: Let_def)
    then show ?thesis by (intro exI [of _ 1]) simp
  next
    case False
    from Cons.IH [of ?w3] obtain j where j: "j \<le> length rest"
      "calls (snd (schedule_loop e al rest ?w3)) = calls ?w3 @ take j (loop_ops e al rest (reads ?w3))"
      by blast
    with False have "calls (snd (schedule_loop e al (item # rest) w))
               = calls w @ take (Suc j) (loop_ops e al (item # rest) (reads w))"
      by (simp add: Let_def)
    with j(1) show ?thesis by (intro exI [of _ "Suc j"]) simp
  qed
qed

lemma schedule_loop_live_sub:
  "dom (live (snd (schedule_loop e al items w))) \<subseteq> dom (live w) \<union> item_id ` set items"
proof (induction items arbitrary: w)
  case Nil
  then show ?case by simp
next
  case (Cons item rest)
  let ?w3 = "snd (port_call e (triggerOp al item (triggerTimestamp (tz e) (fst (hour_minute (time item))) (snd (hour_minute (time item))) (fst (read_clock e w)) (fst (read_clock e (snd (read_clock e w)))))) (snd (read_clock e (snd (read_clock e w)))))"
  from Cons.IH [of ?w3] show ?case
    by (auto simp: Let_def split: if_splits)
qed

lemma batch_calls_cases:
  assumes "getActiveList st = Some al" and "tasks al \<noteq> []"
  shows "batch_calls e st w =
     (if rejects e (length (calls w)) then take 1 batch_head
      else if rejects e (Suc (length (calls w))) then take 2 batch_head
      else if rejects e (Suc (Suc (length (calls w)))) then batch_head
      else batch_head @ drop (length (calls w) + 3)
             (calls (snd (schedule_loop e al (tasks al)
                (snd (port_call e CancelAllNotifications
                  (snd (port_call e (CreateChannel ''timetable-reminders'' ''Timetable Reminders'')
                    (snd (port_call e RequestPermission w))))))))))"
proof -
  let ?w3 = "snd (port_call e CancelAllNotifications
                  (snd (port_call e (CreateChannel ''timetable-reminders'' ''Timetable Reminders'')
                    (snd (port_call e RequestPermission w)))))"
  obtain j where j: "calls (snd (schedule_loop e al (tasks al) ?w3))
      = calls ?w3 @ take j (loop_ops e al (tasks al) (reads ?w3))"
    using schedule_loop_prefix [of "tasks al" e al ?w3] by blast
  show ?thesis
    using assms j
    by (simp add: batch_calls_def scheduleAllNotifications_def schedule_try_def Let_def
        batch_head_def console_error_def Alert_alert_def)
qed


lemma getActiveList_id:
  "getActiveList st = Some al \<Longrightarrow> Some (list_id al) = activeListId st \<and> al \<in> set (lists st)"
  unfolding getActiveList_def by (auto simp: find_Some_iff)

lemma batch_all_ok:
  assumes "getActiveList st = Some al" and "tasks al \<noteq> []"
    and ok: "\<forall>i < 3 + length (tasks al). \<not> rejects e (length (calls w) + i)"
  shows "batch_calls e st w = batch_head @ loop_ops e al (tasks al) (reads w)"
    and "dom (live (scheduleAllNotifications e st w)) = item_id ` set (tasks al)"
    and "console (scheduleAllNotifications e st w) = console w"
    and "alerts (scheduleAllNotifications e st w) = alerts w @ [''Notifications Scheduled!'']"
proof -
  let ?w3 = "snd (port_call e CancelAllNotifications
                  (snd (port_call e (CreateChannel ''timetable-reminders'' ''Timetable Reminders'')
                    (snd (port_call e RequestPermission w)))))"
  from ok have r0: "\<not> rejects e (length (calls w))" by force
  from ok have r1: "\<not> rejects e (Suc (length (calls w)))"
    by (metis add_Suc_right add_0_right add_Suc_shift numeral_3_eq_3 zero_less_Suc Suc_less_eq add_Suc)
  from ok have r2: "\<not> rejects e (Suc (Suc (length (calls w))))"
    by (metis add_Suc_right add_0_right add_Suc_shift numeral_3_eq_3 zero_less_Suc Suc_less_eq add_Suc)
  have "\<forall>i < length (tasks al). \<not> rejects e (length (calls ?w3) + i)"
  proof (intro allI impI)
    fix i assume "i < length (tasks al)"
    then have "3 + i < 3 + length (tasks al)" by simp
    with ok have "\<not> rejects e (length (calls w) + (3 + i))" by blast
    moreover have "length (calls ?w3) + i = length (calls w) + (3 + i)" by simp
    ultimately show "\<not> rejects e (length (calls ?w3) + i)" by metis
  qed
  note L = schedule_loop_all_ok [OF this, of al]
  show "batch_calls e st w = batch_head @ loop_ops e al (tasks al) (reads w)"
    using assms(1,2) r0 r1 r2 L
    by (simp add: batch_calls_cases)
  show "dom (live (scheduleAllNotifications e st w)) = item_id ` set (tasks al)"
    using assms(1,2) r0 r1 r2 L
    by (simp add: scheduleAllNotifications_def schedule_try_def Let_def Alert_alert_def)
  show "console (scheduleAllNotifications e st w) = console w"
    using assms(1,2) r0 r1 r2 L
    by (simp add: scheduleAllNotifications_def schedule_try_def Let_def Alert_alert_def)
  show "alerts (scheduleAllNotifications e st w) = alerts w @ [''Notifications Scheduled!'']"
    using assms(1,2) r0 r1 r2 L
    by (simp add: scheduleAllNotifications_def schedule_try_def Let_def Alert_alert_def)
qed

lemma batch_reject_at:
  assumes "getActiveList st = Some al" and k: "k < length (tasks al)"
    and ok: "\<forall>i < 3 + k. \<not> rejects e (length (calls w) + i)"
    and bad: "rejects e (length (calls w) + 3 + k)"
  shows "batch_calls e st w = batch_head @ take (Suc k) (loop_ops e al (tasks al) (reads w))"
    and "dom (live (scheduleAllNotifications e st w)) = item_id ` set (take k (tasks al))"
    and "console (scheduleAllNotifications e st w) = console w @ [error_line]"
    and "alerts (scheduleAllNotifications e st w) = alerts w"
proof -
  let ?w3 = "snd (port_call e CancelAllNotifications
                  (snd (port_call e (CreateChannel ''timetable-reminders'' ''Timetable Reminders'')
                    (snd (port_call e RequestPermission w)))))"
  from k have ne: "tasks al \<noteq> []" by auto
  from ok have r0: "\<not> rejects e (length (calls w))" by force
  from ok have r1: "\<not> rejects e (Suc (length (calls w)))"
    by (metis add_Suc_right add_0_right add_Suc_shift numeral_3_eq_3 zero_less_Suc Suc_less_eq add_Suc)
  from ok have r2: "\<not> rejects e (Suc (Suc (length (calls w))))"
    by (metis add_Suc_right add_0_right add_Suc_shift numeral_3_eq_3 zero_less_Suc Suc_less_eq add_Suc)
  have a: "\<forall>i < k. \<not> rejects e (length (calls ?w3) + i)"
  proof (intro allI impI)
    fix i assume "i < k"
    then have "3 + i < 3 + k" by simp
    with ok have "\<not> rejects e (length (calls w) + (3 + i))" by blast
    moreover have "length (calls ?w3) + i = length (calls w) + (3 + i)" by simp
    ultimately show "\<not> rejects e (length (calls ?w3) + i)" by metis
  qed
  have "length (calls ?w3) + k = length (calls w) + 3 + k" by simp
  with bad have b: "rejects e (length (calls ?w3) + k)"
    by metis
  note L = schedule_loop_first_reject [OF k a b, of al]
  show "batch_calls e st w = batch_head @ take (Suc k) (loop_ops e al (tasks al) (reads w))"
    using assms(1) ne r0 r1 r2 L
    by (simp add: batch_calls_cases)
  show "dom (live (scheduleAllNotifications e st w)) = item_id ` set (take k (tasks al))"
    using assms(1) ne r0 r1 r2 L
    by (simp add: scheduleAllNotifications_def schedule_try_def Let_def console_error_def)
  show "console (scheduleAllNotifications e st w) = console w @ [error_line]"
    using assms(1) ne r0 r1 r2 L
    by (simp add: scheduleAllNotifications_def schedule_try_def Let_def console_error_def error_line_def)
  show "alerts (scheduleAllNotifications e st w) = alerts w"
    using assms(1) ne r0 r1 r2 L
    by (simp add: scheduleAllNotifications_def schedule_try_def Let_def console_error_def)
qed


lemma op_ids_loop_ops [simp]:
  "\<Union> (op_ids ` set (take j (loop_ops e al items r))) \<subseteq> item_id ` set items"
proof (induction items arbitrary: r j)
  case Nil
  then show ?case by simp
next
  case (Cons item rest)
  show ?case
  proof (cases j)
    case 0
    then show ?thesis by simp
  next
    case (Suc n)
    with Cons.IH [of n "Suc (Suc r)"] show ?thesis
      by (auto simp: triggerOp_def)
  qed
qed

lemma op_ids_batch_head [simp]: "\<Union> (op_ids ` set (take n batch_head)) = {}"
proof -
  have "set (take n batch_head) \<subseteq> set batch_head" by (rule set_take_subset)
  then show ?thesis by (auto simp: batch_head_def)
qed

lemma upto3_cases:
  assumes "n \<le> (3::nat)"
  obtains "n = 0" | "n = 1" | "n = 2" | "n = 3"
  using assms by arith

lemma map_trigger_id_loop_ops [simp]:
  "map trigger_id (loop_ops e al items r) = map (Some \<circ> item_id) items"
  by (induction items arbitrary: r) (simp_all add: triggerOp_def)

lemma count_cancelAll_loop_ops [simp]:
  "count_list (take j (loop_ops e al items r)) CancelAllNotifications = 0"
proof -
  have "CancelAllNotifications \<notin> set (take j (loop_ops e al items r))"
    using set_take_subset [of j "loop_ops e al items r"] cancelAll_notin_loop_ops [of e al items r]
    by blast
  then show ?thesis by (simp add: count_list_0_iff)
qed

lemma batch_calls_shape:
  assumes "getActiveList st = Some al" and "tasks al \<noteq> []"
  shows "\<exists>n j. n \<le> 3 \<and> j \<le> length (tasks al) \<and> (0 < j \<longrightarrow> n = 3 \<and> \<not> rejects e (length (calls w) + 2)) \<and>
           batch_calls e st w = take n batch_head @ take j (loop_ops e al (tasks al) (reads w))"
proof -
  let ?w3 = "snd (port_call e CancelAllNotifications
                  (snd (port_call e (CreateChannel ''timetable-reminders'' ''Timetable Reminders'')
                    (snd (port_call e RequestPermission w)))))"
  obtain j where j: "j \<le> length (tasks al)" "calls (snd (schedule_loop e al (tasks al) ?w3))
      = calls ?w3 @ take j (loop_ops e al (tasks al) (reads ?w3))"
    using schedule_loop_prefix [of "tasks al" e al ?w3] by blast
  consider (a) "rejects e (length (calls w))"
    | (b) "\<not> rejects e (length (calls w))" "rejects e (Suc (length (calls w)))"
    | (c) "\<not> rejects e (length (calls w))" "\<not> rejects e (Suc (length (calls w)))"
          "rejects e (Suc (Suc (length (calls w))))"
    | (d) "\<not> rejects e (length (calls w))" "\<not> rejects e (Suc (length (calls w)))"
          "\<not> rejects e (Suc (Suc (length (calls w))))"
    by blast
  then show ?thesis
  proof cases
    case a
    then have "batch_calls e st w = take 1 batch_head @ take 0 (loop_ops e al (tasks al) (reads w))"
      using assms by (simp add: batch_calls_cases)
    then show ?thesis by (intro exI [of _ 1] exI [of _ 0]) simp
  next
    case b
    then have "batch_calls e st w = take 2 batch_head @ take 0 (loop_ops e al (tasks al) (reads w))"
      using assms by (simp add: batch_calls_cases)
    then show ?thesis by (intro exI [of _ 2] exI [of _ 0]) simp
  next
    case c
    then have "batch_calls e st w = take 3 batch_head @ take 0 (loop_ops e al (tasks al) (reads w))"
      using assms by (simp add: batch_calls_cases batch_head_def)
    then show ?thesis by (intro exI [of _ 3] exI [of _ 0]) simp
  next
    case d
    then have "batch_calls e st w = take 3 batch_head @ take j (loop_ops e al (tasks al) (reads w))"
      using assms j by (simp add: batch_calls_cases batch_head_def)
    with d j(1) show ?thesis by (intro exI [of _ 3] exI [of _ j]) simp
  qed
qed

text \<open>
  C1, as the code has it. The loop stands inside one \<open>try\<close>, so a rejected
  \<open>createTriggerNotification\<close> ends the batch. If the calls before it were acknowledged
  and the call for the item at position \<open>k\<close> (counted from 0) rejects, then the calls
  issued are the three leading calls and the creates for the items up to and including
  position \<open>k\<close>, and no more; the notifications live afterwards are exactly those of the
  \<open>k\<close> items before it (the cancel-all and the earlier creates are not undone, the
  failing item and all later ones have none); the error is logged once, and the
  success alert is not shown.
\<close>

theorem create_failure_ends_batch:
  assumes "getActiveList st = Some al" and "k < length (tasks al)"
    and "\<forall>i < 3 + k. \<not> rejects e (length (calls w) + i)"
    and "rejects e (length (calls w) + 3 + k)"
  shows "trigger_ids (batch_calls e st w) = map item_id (take (Suc k) (tasks al)) \<and>
         take 3 (batch_calls e st w) = batch_head \<and>
         length (batch_calls e st w) = 3 + Suc k \<and>
         dom (live (scheduleAllNotifications e st w)) = item_id ` set (take k (tasks al)) \<and>
         console (scheduleAllNotifications e st w) = console w @ [error_line] \<and>
         alerts (scheduleAllNotifications e st w) = alerts w"
proof -
  note R = batch_reject_at [OF assms]
  from assms(2) have "min (length (tasks al)) (Suc k) = Suc k" by simp
  with R(1) have "length (batch_calls e st w) = 3 + Suc k"
    by (simp add: batch_head_def)
  moreover from R(1) have "trigger_ids (batch_calls e st w) = map item_id (take (Suc k) (tasks al))"
    by (simp add: batch_head_def)
  moreover from R(1) have "take 3 (batch_calls e st w) = batch_head"
    by (simp add: batch_head_def)
  ultimately show ?thesis using R(2,3,4) by simp
qed

theorem create_failure_ends_batch_witness:
  "getActiveList (sample_state [two_items]) = Some two_items \<and>
   (1::nat) < length (tasks two_items) \<and>
   rejects (sample_env (reject_at 4)) (length (calls empty_world) + 3 + 1) \<and>
   trigger_ids (batch_calls (sample_env (reject_at 4)) (sample_state [two_items]) empty_world)
     = [''1'', ''2''] \<and>
   dom (live (scheduleAllNotifications (sample_env (reject_at 4)) (sample_state [two_items])
     empty_world)) = {''1''} \<and>
   console (scheduleAllNotifications (sample_env (reject_at 4)) (sample_state [two_items])
     empty_world) = [error_line]"
proof -
  have a: "getActiveList (sample_state [two_items]) = Some two_items"
    by (simp add: getActiveList_def sample_state_def two_items_def)
  have b: "(1::nat) < length (tasks two_items)"
    by (simp add: two_items_def)
  have c: "\<forall>i < 3 + 1. \<not> rejects (sample_env (reject_at 4)) (length (calls empty_world) + i)"
    by (simp add: sample_env_def empty_world_def)
  have d: "rejects (sample_env (reject_at 4)) (length (calls empty_world) + 3 + 1)"
    by (simp add: sample_env_def empty_world_def)
  have t: "take (Suc 1) (tasks two_items) = tasks two_items" "take 1 (tasks two_items) = [hd (tasks two_items)]"
    by (simp_all add: two_items_def)
  from create_failure_ends_batch [OF a b c d] a b d show ?thesis
    by (simp add: t) (simp add: two_items_def empty_world_def)
qed

text \<open>
  C1 as stated fails: with two items and the first create rejecting, no create is
  issued for the second item.
\<close>

theorem create_failure_counterexample:
  "rejects (sample_env (reject_at 3)) 3 \<and>
   map item_id (tasks two_items) = [''1'', ''2''] \<and>
   trigger_ids (batch_calls (sample_env (reject_at 3)) (sample_state [two_items]) empty_world)
     = [''1'']"
  by (simp add: sample_env_def two_items_def sample_state_def empty_world_def batch_calls_def
      scheduleAllNotifications_def schedule_try_def getActiveList_def Let_def console_error_def)


text \<open>
  C3, as the code has it. For an active list with at least one item: when no port call
  of the run rejects, the calls added are the permission request, the channel, one
  cancel-all, and then one create per item in stored order, and nothing else. In every
  run, at most one cancel-all is issued, the creates issued are those of an initial
  segment of the list in stored order, and a create is issued only after the cancel-all
  was issued and acknowledged.
\<close>

theorem bulk_reschedule_order:
  assumes "getActiveList st = Some al" and "tasks al \<noteq> []"
  shows "((\<forall>i < 3 + length (tasks al). \<not> rejects e (length (calls w) + i)) \<longrightarrow>
            batch_calls e st w = batch_head @ loop_ops e al (tasks al) (reads w) \<and>
            map trigger_id (loop_ops e al (tasks al) (reads w)) = map (Some \<circ> item_id) (tasks al) \<and>
            count_list (batch_calls e st w) CancelAllNotifications = 1) \<and>
         count_list (batch_calls e st w) CancelAllNotifications \<le> 1 \<and>
         (\<exists>j \<le> length (tasks al). trigger_ids (batch_calls e st w) = map item_id (take j (tasks al))) \<and>
         (trigger_ids (batch_calls e st w) \<noteq> [] \<longrightarrow>
            take 3 (batch_calls e st w) = batch_head \<and> \<not> rejects e (length (calls w) + 2))"
proof -
  obtain n j where nj: "n \<le> 3" "j \<le> length (tasks al)"
      "0 < j \<longrightarrow> n = 3 \<and> \<not> rejects e (length (calls w) + 2)"
      "batch_calls e st w = take n batch_head @ take j (loop_ops e al (tasks al) (reads w))"
    using batch_calls_shape [OF assms] by blast
  have ids: "trigger_ids (batch_calls e st w) = map item_id (take j (tasks al))"
    using nj(1,4) by (cases n rule: upto3_cases) (simp_all add: batch_head_def)
  have cnt: "count_list (batch_calls e st w) CancelAllNotifications \<le> 1"
    using nj(1,4) by (cases n rule: upto3_cases) (simp_all add: batch_head_def)
  have part1: "(\<forall>i < 3 + length (tasks al). \<not> rejects e (length (calls w) + i)) \<longrightarrow>
            batch_calls e st w = batch_head @ loop_ops e al (tasks al) (reads w) \<and>
            map trigger_id (loop_ops e al (tasks al) (reads w)) = map (Some \<circ> item_id) (tasks al) \<and>
            count_list (batch_calls e st w) CancelAllNotifications = 1"
  proof
    assume ok: "\<forall>i < 3 + length (tasks al). \<not> rejects e (length (calls w) + i)"
    from batch_all_ok(1) [OF assms ok]
    show "batch_calls e st w = batch_head @ loop_ops e al (tasks al) (reads w) \<and>
            map trigger_id (loop_ops e al (tasks al) (reads w)) = map (Some \<circ> item_id) (tasks al) \<and>
            count_list (batch_calls e st w) CancelAllNotifications = 1"
      by (simp add: batch_head_def)
  qed
  have part4: "trigger_ids (batch_calls e st w) \<noteq> [] \<longrightarrow>
            take 3 (batch_calls e st w) = batch_head \<and> \<not> rejects e (length (calls w) + 2)"
  proof
    assume "trigger_ids (batch_calls e st w) \<noteq> []"
    with ids have "0 < j" by (cases j) simp_all
    with nj(3) have "n = 3" "\<not> rejects e (length (calls w) + 2)" by simp_all
    with nj(4) show "take 3 (batch_calls e st w) = batch_head \<and> \<not> rejects e (length (calls w) + 2)"
      by (simp add: batch_head_def)
  qed
  from part1 cnt ids nj(2) part4 show ?thesis by blast
qed


theorem bulk_reschedule_order_witness:
  "getActiveList (sample_state [two_items]) = Some two_items \<and> tasks two_items \<noteq> [] \<and>
   batch_calls (sample_env no_reject) (sample_state [two_items]) empty_world
     = batch_head @ loop_ops (sample_env no_reject) two_items (tasks two_items) 0 \<and>
   trigger_ids (batch_calls (sample_env no_reject) (sample_state [two_items]) empty_world)
     = [''1'', ''2''] \<and>
   count_list (batch_calls (sample_env no_reject) (sample_state [two_items]) empty_world)
     CancelAllNotifications = 1 \<and>
   \<not> rejects (sample_env no_reject) (length (calls empty_world) + 2)"
proof -
  have a: "getActiveList (sample_state [two_items]) = Some two_items"
    by (simp add: getActiveList_def sample_state_def two_items_def)
  have b: "tasks two_items \<noteq> []"
    by (simp add: two_items_def)
  have c: "\<forall>i < 3 + length (tasks two_items).
             \<not> rejects (sample_env no_reject) (length (calls empty_world) + i)"
    by (simp add: sample_env_def)
  have r: "reads empty_world = 0" by (simp add: empty_world_def)
  have m: "map item_id (tasks two_items) = [''1'', ''2'']" by (simp add: two_items_def)
  from bulk_reschedule_order [OF a b, of "sample_env no_reject" empty_world] c
  have "batch_calls (sample_env no_reject) (sample_state [two_items]) empty_world
          = batch_head @ loop_ops (sample_env no_reject) two_items (tasks two_items) (reads empty_world) \<and>
        count_list (batch_calls (sample_env no_reject) (sample_state [two_items]) empty_world)
          CancelAllNotifications = 1"
    by blast
  then have "batch_calls (sample_env no_reject) (sample_state [two_items]) empty_world
          = batch_head @ loop_ops (sample_env no_reject) two_items (tasks two_items) 0"
      and "count_list (batch_calls (sample_env no_reject) (sample_state [two_items]) empty_world)
          CancelAllNotifications = 1"
    unfolding r by blast+
  moreover from this(1)
  have "trigger_ids (batch_calls (sample_env no_reject) (sample_state [two_items]) empty_world)
     = [''1'', ''2'']"
    by (simp add: batch_head_def m)
  moreover have "\<not> rejects (sample_env no_reject) (length (calls empty_world) + 2)"
    by (simp add: sample_env_def)
  ultimately show ?thesis using a b by blast
qed

text \<open>
  C3 as stated fails: with two items and the cancel-all rejecting, the one cancel-all
  is followed by no create at all.
\<close>

theorem bulk_reschedule_order_counterexample:
  "rejects (sample_env (reject_at 2)) 2 \<and>
   length (tasks two_items) = 2 \<and>
   batch_calls (sample_env (reject_at 2)) (sample_state [two_items]) empty_world = batch_head \<and>
   trigger_ids (batch_calls (sample_env (reject_at 2)) (sample_state [two_items]) empty_world) = []"
  by (simp add: sample_env_def two_items_def sample_state_def empty_world_def batch_calls_def
      scheduleAllNotifications_def schedule_try_def getActiveList_def Let_def console_error_def
      batch_head_def)

text \<open>
  C6, as the code has it. No call of a bulk reschedule names an item id outside the
  active list. But the cancel-all of the batch is \<open>cancelAllNotifications\<close>: once it is
  acknowledged, every notification that was live, those of other lists included, is gone,
  and the notifications live after the run belong to items of the active list.
\<close>

theorem bulk_reschedule_other_lists:
  assumes "getActiveList st = Some al" and "tasks al \<noteq> []"
  shows "\<Union> (op_ids ` set (batch_calls e st w)) \<subseteq> item_id ` set (tasks al) \<and>
         (\<not> rejects e (length (calls w)) \<and> \<not> rejects e (Suc (length (calls w))) \<and>
          \<not> rejects e (Suc (Suc (length (calls w)))) \<longrightarrow>
            dom (live (scheduleAllNotifications e st w)) \<subseteq> item_id ` set (tasks al))"
proof -
  let ?w3 = "snd (port_call e CancelAllNotifications
                  (snd (port_call e (CreateChannel ''timetable-reminders'' ''Timetable Reminders'')
                    (snd (port_call e RequestPermission w)))))"
  obtain n j where nj:
      "batch_calls e st w = take n batch_head @ take j (loop_ops e al (tasks al) (reads w))"
    using batch_calls_shape [OF assms] by blast
  have "\<Union> (op_ids ` set (batch_calls e st w)) =
          \<Union> (op_ids ` set (take n batch_head)) \<union>
          \<Union> (op_ids ` set (take j (loop_ops e al (tasks al) (reads w))))"
    by (simp only: nj set_append image_Un Union_Un_distrib)
  also have "\<dots> \<subseteq> item_id ` set (tasks al)"
    using op_ids_loop_ops [of j e al "tasks al" "reads w"] by (simp only: op_ids_batch_head) simp
  finally have ids: "\<Union> (op_ids ` set (batch_calls e st w)) \<subseteq> item_id ` set (tasks al)" .
  have "dom (live (scheduleAllNotifications e st w)) \<subseteq> item_id ` set (tasks al)"
    if ok: "\<not> rejects e (length (calls w)) \<and> \<not> rejects e (Suc (length (calls w))) \<and>
          \<not> rejects e (Suc (Suc (length (calls w))))"
  proof -
    have "dom (live ?w3) = {}" using ok by simp
    with schedule_loop_live_sub [of e al "tasks al" ?w3]
    have "dom (live (snd (schedule_loop e al (tasks al) ?w3))) \<subseteq> item_id ` set (tasks al)"
      by simp
    with assms ok show ?thesis
      by (simp add: scheduleAllNotifications_def schedule_try_def Let_def console_error_def
          Alert_alert_def)
  qed
  with ids show ?thesis by blast
qed

theorem bulk_reschedule_other_lists_witness:
  "getActiveList (sample_state [two_items, other_list]) = Some two_items \<and>
   tasks two_items \<noteq> [] \<and>
   \<not> rejects (sample_env no_reject) (length (calls world_with_b1)) \<and>
   \<Union> (op_ids ` set (batch_calls (sample_env no_reject) (sample_state [two_items, other_list])
       world_with_b1)) \<subseteq> {''1'', ''2''} \<and>
   dom (live (scheduleAllNotifications (sample_env no_reject)
       (sample_state [two_items, other_list]) world_with_b1)) \<subseteq> {''1'', ''2''}"
proof -
  have a: "getActiveList (sample_state [two_items, other_list]) = Some two_items"
    by (simp add: getActiveList_def sample_state_def two_items_def)
  have b: "tasks two_items \<noteq> []"
    by (simp add: two_items_def)
  have c: "\<And>n. \<not> rejects (sample_env no_reject) n"
    by (simp add: sample_env_def)
  have m: "item_id ` set (tasks two_items) = {''1'', ''2''}" by (simp add: two_items_def)
  from bulk_reschedule_other_lists [OF a b, of "sample_env no_reject" world_with_b1] a b c
  show ?thesis
    by (simp only: m) simp
qed

text \<open>
  C6 as stated fails: a notification of list B that is live before list A is
  rescheduled is not live afterwards.
\<close>

theorem other_lists_counterexample:
  "live world_with_b1 ''b1'' \<noteq> None \<and>
   ''b1'' \<in> item_id ` set (tasks other_list) \<and>
   getActiveList (sample_state [two_items, other_list]) = Some two_items \<and>
   live (scheduleAllNotifications (sample_env no_reject)
           (sample_state [two_items, other_list]) world_with_b1) ''b1'' = None"
  by (simp add: sample_env_def two_items_def other_list_def sample_state_def empty_world_def
      world_with_b1_def scheduleAllNotifications_def schedule_try_def getActiveList_def Let_def
      Alert_alert_def triggerOp_def)

section \<open>Time strings and trigger instants\<close>

lemma digit_char:
  assumes "d < 10"
  shows "isDigit (digit_char d)" and "digit_val (digit_char d) = d"
    and "digit_char d \<noteq> CHR '':''"
  using assms
  by (auto simp: less_Suc_eq eval_nat_numeral digit_char_def isDigit_def digit_val_def)

declare digits_of.simps [simp del]

lemma digit_char_0: "digit_char 0 = CHR ''0''"
  by (simp add: digit_char_def)

lemma digits_of_small: "n < 10 \<Longrightarrow> digits_of n = [digit_char n]"
  by (subst digits_of.simps) simp

lemma digits_of_two:
  assumes "10 \<le> n" and "n < 100"
  shows "digits_of n = [digit_char (n div 10), digit_char (n mod 10)]"
proof -
  from assms have "n div 10 < 10" by simp
  then have "digits_of (n div 10) = [digit_char (n div 10)]" by (rule digits_of_small)
  with assms(1) show ?thesis by (subst digits_of.simps) simp
qed

lemma pad2_digits:
  assumes "n < 100"
  shows "padStart2 (digits_of n) = [digit_char (n div 10), digit_char (n mod 10)]"
proof (cases "n < 10")
  case True
  then show ?thesis by (simp add: padStart2_def digits_of_small digit_char_0)
next
  case False
  with assms show ?thesis by (simp add: padStart2_def digits_of_two)
qed

lemma HHMM_chars:
  assumes "h < 100" and "m < 100"
  shows "HHMM h m = [digit_char (h div 10), digit_char (h mod 10), CHR '':'',
                     digit_char (m div 10), digit_char (m mod 10)]"
  using assms by (simp add: HHMM_def pad2_digits)

lemma Number_two_digits:
  assumes "a < 10" and "b < 10"
  shows "Number [digit_char a, digit_char b] = Some (int (10 * a + b))"
  using digit_char [OF assms(1)] digit_char [OF assms(2)]
  by (simp add: Number_def decimal_def)

lemma split_two_fields:
  assumes "a \<noteq> CHR '':''" "b \<noteq> CHR '':''" "c \<noteq> CHR '':''" "d \<noteq> CHR '':''"
  shows "split_colon [a, b, CHR '':'', c, d] = [ [a, b], [c, d] ]"
  using assms by simp

lemma hour_minute_HHMM:
  assumes "h < 100" and "m < 100"
  shows "hour_minute (HHMM h m) = (Some (int h), Some (int m))"
proof -
  have d: "h div 10 < 10" "h mod 10 < 10" "m div 10 < 10" "m mod 10 < 10"
    using assms by simp_all
  have "split_colon (HHMM h m) =
      [ [digit_char (h div 10), digit_char (h mod 10)],
       [digit_char (m div 10), digit_char (m mod 10)] ]"
    unfolding HHMM_chars [OF assms]
    by (rule split_two_fields) (simp_all only: digit_char(3) [OF d(1)] digit_char(3) [OF d(2)]
        digit_char(3) [OF d(3)] digit_char(3) [OF d(4)] not_False_eq_True)
  then show ?thesis
    by (simp only: hour_minute_def list.map first_two_def list.case
        Number_two_digits [OF d(1,2)] Number_two_digits [OF d(3,4)]) simp
qed

lemma test_HHMM_HHMM:
  assumes "h < 100" and "m < 100"
  shows "test_HHMM (HHMM h m)"
proof -
  have d: "h div 10 < 10" "h mod 10 < 10" "m div 10 < 10" "m mod 10 < 10"
    using assms by simp_all
  show ?thesis
    unfolding HHMM_chars [OF assms]
    using digit_char(1) [OF d(1)] digit_char(1) [OF d(2)] digit_char(1) [OF d(3)]
      digit_char(1) [OF d(4)]
    by simp
qed







lemma fixed_zone_simps [simp]:
  "LocalTime (fixed_zone off) t = t + off"
  "UTC (fixed_zone off) t = t - off"
  by (simp_all add: LocalTime_def UTC_def fixed_zone_def)











text \<open>
  The three examples of the specification, both readings at 10:00 on day 0 in a zone
  without offset: 09:59 is tomorrow, 10:01 and 10:00 are today.
\<close>

lemma next_trigger_examples:
  "triggerTimestamp (fixed_zone 0) (fst (hour_minute ''09:59'')) (snd (hour_minute ''09:59''))
     36000000 36000000 = Some (86400000 + 35940000)"
  "triggerTimestamp (fixed_zone 0) (fst (hour_minute ''10:01'')) (snd (hour_minute ''10:01''))
     36000000 36000000 = Some 36060000"
  "triggerTimestamp (fixed_zone 0) (fst (hour_minute ''10:00'')) (snd (hour_minute ''10:00''))
     36000000 36000000 = Some 36000000"
  by (simp_all add: triggerTimestamp_def setHours_def js_less_def setDate_next_def Day_def
      TimeWithinDay_def TimeClip_def maxTime_def
      msPerDay_def msPerHour_def msPerMinute_def hour_minute_def first_two_def Number_def
      isDigit_def decimal_def digit_val_def)

text \<open>
  Across a change of offset the day that is added is a calendar day, not 24 hours: at
  20:00 on 2026-03-07 in the zone above, 10:00 of that day has passed and the trigger is
  10:00 of the next day, 23 hours after it. Beyond the range of \<open>Date\<close> the result is NaN.
\<close>

lemma next_trigger_calendar_day:
  "triggerTimestamp spring_zone (Some 10) (Some 0) 1772931600000 1772931600001
     = Some 1772978400000"
  "setHours spring_zone (Some 1772931600000) (Some 10) (Some 0) = Some 1772895600000"
  "1772978400000 - 1772895600000 = 23 * msPerHour"
  "setHours (fixed_zone 0) (Some 8640000000000000) (Some 10) (Some 0) = None"
  by (simp_all add: triggerTimestamp_def setHours_def js_less_def setDate_next_def Day_def
      TimeWithinDay_def TimeClip_def maxTime_def LocalTime_def UTC_def spring_zone_def
      fixed_zone_def msPerDay_def msPerHour_def msPerMinute_def)

section \<open>Saving a task\<close>

lemma strict_HHMM_iff: "strict_HHMM raw \<longleftrightarrow> (\<exists>h < 24. \<exists>m < 60. raw = HHMM h m)"
  by (simp add: strict_HHMM_def list_ex_iff Bex_def)

lemma test_HHMM_shape:
  "test_HHMM raw \<longleftrightarrow>
     (\<exists>a b c d. raw = [a, b, CHR '':'', c, d] \<and> isDigit a \<and> isDigit b \<and> isDigit c \<and> isDigit d)"
  by (cases raw rule: test_HHMM.cases) auto

lemma strict_imp_test: "strict_HHMM raw \<Longrightarrow> test_HHMM raw"
  by (auto simp: strict_HHMM_iff intro: test_HHMM_HHMM)

lemma insert_cmp_insort:
  "insert_cmp (\<lambda>a b. localeCompare (time a) (time b)) x ys = insort_key time x ys"
  by (induction ys) (auto simp: localeCompare_def)

lemma sort_cmp_sort_key:
  "sort_cmp (\<lambda>a b. localeCompare (time a) (time b)) xs = sort_key time xs"
  by (induction xs) (simp_all add: sort_cmp_def insert_cmp_insort)

lemma find_replace:
  "find (\<lambda>l. Some (list_id l) = a) ls = Some al \<Longrightarrow>
   find (\<lambda>l. Some (list_id l) = a)
     (map (\<lambda>l. if Some (list_id l) = a then l\<lparr>tasks := ts\<rparr> else l) ls) = Some (al\<lparr>tasks := ts\<rparr>)"
  by (induction ls) (auto split: if_splits)

lemma getActiveList_replace:
  assumes "getActiveList st = Some al"
    and "lists st' = replace_tasks st ts" and "activeListId st' = activeListId st"
  shows "getActiveList st' = Some (al\<lparr>tasks := ts\<rparr>)"
  using assms find_replace [of "activeListId st" "lists st" al ts]
  by (simp add: getActiveList_def replace_tasks_def)

lemma handleSaveTask_rejected:
  "currentTask st = [] \<or> \<not> test_HHMM (currentTime st) \<Longrightarrow>
   handleSaveTask J uid e (st, w) = (st, Alert_alert ''Invalid Input'' w)"
  by (simp add: handleSaveTask_def)

lemma handleSaveTask_accepted:
  assumes "currentTask st \<noteq> []" and "test_HHMM (currentTime st)"
    and "getActiveList st = Some al"
  shows "lists (fst (handleSaveTask J uid e (st, w)))
           = replace_tasks st (sort_key time (updated_tasks uid st al))"
    and "activeListId (fst (handleSaveTask J uid e (st, w))) = activeListId st"
    and "taskModalVisible (fst (handleSaveTask J uid e (st, w))) = False"
    and "alerts (snd (handleSaveTask J uid e (st, w))) = alerts w"
    and "calls (snd (handleSaveTask J uid e (st, w))) = calls w"
    and "live (snd (handleSaveTask J uid e (st, w))) = live w"
    and "reads (snd (handleSaveTask J uid e (st, w))) = reads w"
  using assms
  by (simp_all add: handleSaveTask_def saveData_def Let_def sort_cmp_sort_key updated_tasks_def
      console_error_def split: option.splits)

text \<open>
  What the guard of \<open>handleSaveTask\<close> does check. Every time string that is not two
  decimal digits, a colon and two decimal digits, among them \<open>1:30\<close>, \<open>ab:cd\<close> and the
  empty string, is rejected: the Invalid Input alert is shown, nothing is saved and no
  port call is made. Every string of the strict format (hour in [0,23], minute in
  [0,59], zero-padded) passes the guard, and with a task text and an active list it is
  saved without an alert.
\<close>

lemma time_guard:
  "(\<not> test_HHMM (currentTime st) \<longrightarrow>
      handleSaveTask J uid e (st, w) = (st, Alert_alert ''Invalid Input'' w)) \<and>
   (test_HHMM raw \<longrightarrow>
      (\<exists>a b c d. raw = [a, b, CHR '':'', c, d] \<and> isDigit a \<and> isDigit b \<and> isDigit c \<and> isDigit d)) \<and>
   \<not> test_HHMM ''1:30'' \<and> \<not> test_HHMM ''ab:cd'' \<and> \<not> test_HHMM [] \<and>
   (strict_HHMM raw \<longrightarrow> test_HHMM raw) \<and>
   (strict_HHMM (currentTime st) \<and> currentTask st \<noteq> [] \<and> getActiveList st = Some al \<longrightarrow>
      alerts (snd (handleSaveTask J uid e (st, w))) = alerts w \<and>
      getActiveList (fst (handleSaveTask J uid e (st, w)))
        = Some (al\<lparr>tasks := sort_key time (updated_tasks uid st al)\<rparr>))"
proof -
  have rej: "\<not> test_HHMM (currentTime st) \<longrightarrow>
      handleSaveTask J uid e (st, w) = (st, Alert_alert ''Invalid Input'' w)"
    by (simp add: handleSaveTask_rejected)
  have ex: "\<not> test_HHMM ''1:30'' \<and> \<not> test_HHMM ''ab:cd'' \<and> \<not> test_HHMM []"
    by (simp add: isDigit_def)
  have acc: "strict_HHMM (currentTime st) \<and> currentTask st \<noteq> [] \<and> getActiveList st = Some al \<longrightarrow>
      alerts (snd (handleSaveTask J uid e (st, w))) = alerts w \<and>
      getActiveList (fst (handleSaveTask J uid e (st, w)))
        = Some (al\<lparr>tasks := sort_key time (updated_tasks uid st al)\<rparr>)"
  proof (intro impI, elim conjE)
    assume s: "strict_HHMM (currentTime st)" and t: "currentTask st \<noteq> []"
      and a: "getActiveList st = Some al"
    note H = handleSaveTask_accepted [OF t strict_imp_test [OF s] a, of J uid e w]
    from getActiveList_replace [OF a H(1) H(2)] H(4)
    show "alerts (snd (handleSaveTask J uid e (st, w))) = alerts w \<and>
      getActiveList (fst (handleSaveTask J uid e (st, w)))
        = Some (al\<lparr>tasks := sort_key time (updated_tasks uid st al)\<rparr>)"
      by simp
  qed
  from rej ex acc test_HHMM_shape [of raw] strict_imp_test [of raw] show ?thesis
    by blast
qed

lemma entering_active: "getActiveList (entering tm txt) = Some two_items"
  by (simp add: entering_def getActiveList_def sample_state_def two_items_def)

lemma time_guard_instances:
  "\<not> test_HHMM (currentTime (entering ''1:30'' ''Tea'')) \<and>
   handleSaveTask sample_json ''u1'' (sample_env no_reject) (entering ''1:30'' ''Tea'', empty_world)
     = (entering ''1:30'' ''Tea'', Alert_alert ''Invalid Input'' empty_world) \<and>
   strict_HHMM ''07:30'' \<and> test_HHMM ''07:30'' \<and>
   currentTask (entering ''07:30'' ''Tea'') \<noteq> [] \<and>
   alerts (snd (handleSaveTask sample_json ''u1'' (sample_env no_reject)
     (entering ''07:30'' ''Tea'', empty_world))) = [] \<and>
   map_option (map time \<circ> tasks) (getActiveList (fst (handleSaveTask sample_json ''u1''
     (sample_env no_reject) (entering ''07:30'' ''Tea'', empty_world))))
     = Some [''06:00'', ''06:15'', ''07:30'']"
proof -
  have s: "strict_HHMM ''07:30''"
  proof -
    have "HHMM 7 30 = ''07:30''"
      by (simp add: HHMM_def padStart2_def digits_of_small digits_of_two digit_char_def)
    then have "(7::nat) < 24 \<and> (30::nat) < 60 \<and> ''07:30'' = HHMM 7 30" by simp
    then show ?thesis unfolding strict_HHMM_iff by blast
  qed
  have c1: "currentTime (entering ''1:30'' ''Tea'') = ''1:30''"
    and c2: "currentTime (entering ''07:30'' ''Tea'') = ''07:30''"
    and c3: "currentTask (entering ''07:30'' ''Tea'') \<noteq> []"
    by (simp_all add: entering_def sample_state_def)
  have u: "sort_key time (updated_tasks ''u1'' (entering ''07:30'' ''Tea'') two_items)
      = tasks two_items @ [\<lparr>item_id = ''u1'', time = ''07:30'', task = ''Tea''\<rparr>]"
    by (simp add: updated_tasks_def entering_def sample_state_def two_items_def)
  note T = time_guard [of "entering ''1:30'' ''Tea''" sample_json "''u1''" "sample_env no_reject"
      empty_world "''07:30''" two_items]
  note U = time_guard [of "entering ''07:30'' ''Tea''" sample_json "''u1''" "sample_env no_reject"
      empty_world "''07:30''" two_items]
  from T have t1: "\<not> test_HHMM ''1:30''" and t2: "handleSaveTask sample_json ''u1'' (sample_env no_reject) (entering ''1:30'' ''Tea'', empty_world)
     = (entering ''1:30'' ''Tea'', Alert_alert ''Invalid Input'' empty_world)"
    unfolding c1 by blast+
  from U s have t3: "test_HHMM ''07:30''" by blast
  from U s c3 entering_active
  have t4: "alerts (snd (handleSaveTask sample_json ''u1'' (sample_env no_reject)
     (entering ''07:30'' ''Tea'', empty_world))) = alerts empty_world"
    and t5: "getActiveList (fst (handleSaveTask sample_json ''u1''
     (sample_env no_reject) (entering ''07:30'' ''Tea'', empty_world)))
       = Some (two_items\<lparr>tasks := sort_key time (updated_tasks ''u1'' (entering ''07:30'' ''Tea'') two_items)\<rparr>)"
    unfolding c2 by blast+
  from t1 t2 s t3 c3 t4 t5 show ?thesis
    unfolding c1 u by (simp add: empty_world_def two_items_def)
qed

lemma not_strict_2400: "\<not> strict_HHMM ''24:00''"
proof
  assume "strict_HHMM ''24:00''"
  then obtain h m where hm: "h < 24" "m < 60" "''24:00'' = HHMM h m"
    unfolding strict_HHMM_iff by blast
  from hm(1,2) have "hour_minute (HHMM h m) = (Some (int h), Some (int m))"
    by (intro hour_minute_HHMM) simp_all
  moreover have "hour_minute ''24:00'' = (Some 24, Some 0)"
    by (simp add: hour_minute_def first_two_def Number_def isDigit_def decimal_def digit_val_def)
  ultimately show False using hm(1,3) by simp
qed

lemma format_2400: "formatTime12Hour ''24:00'' = ''12:00 PM''"
proof -
  have "String_of (Some 12) = ''12''" "String_of (Some 0) = ''0''"
    by (simp_all add: String_of_def digits_of_small digits_of_two digit_char_def)
  then show ?thesis
    by (simp add: formatTime12Hour_def hour_minute_def first_two_def Number_def isDigit_def
        decimal_def digit_val_def js_ge_def js_rem_def padStart2_def)
qed

text \<open>
  C2. The claim is that a time outside the strict format is rejected. The code departs
  from it at \<open>24:00\<close> entered with a task text while a list is active: the string is
  outside the strict format, yet it passes the guard, no alert is shown, and the task is
  saved with that time, its hour read as 24. The formatter, which expects an hour up to
  23, then shows it as \<open>12:00 PM\<close>.
\<close>

theorem guard_admits_2400:
  "\<not> strict_HHMM ''24:00'' \<and> test_HHMM ''24:00'' \<and>
   hour_minute ''24:00'' = (Some 24, Some 0) \<and>
   alerts (snd (handleSaveTask sample_json ''u1'' (sample_env no_reject)
     (entering ''24:00'' ''Tea'', empty_world))) = [] \<and>
   map time (tasks (hd (lists (fst (handleSaveTask sample_json ''u1'' (sample_env no_reject)
     (entering ''24:00'' ''Tea'', empty_world))))))
     = [''06:00'', ''06:15'', ''24:00''] \<and>
   formatTime12Hour ''24:00'' = ''12:00 PM''"
  using not_strict_2400 format_2400
  by (simp add: isDigit_def hour_minute_def first_two_def Number_def decimal_def digit_val_def
      handleSaveTask_def entering_def sample_state_def two_items_def getActiveList_def
      saveData_def Let_def sample_env_def empty_world_def sort_cmp_def localeCompare_def
      replace_tasks_def updated_tasks_def)

subsection \<open>The order after a save\<close>

lemma of_char_digit_char: "d < 10 \<Longrightarrow> of_char (digit_char d) = 48 + d"
  by (auto simp: less_Suc_eq eval_nat_numeral digit_char_def)

lemma digit_char_less: "a < 10 \<Longrightarrow> b < 10 \<Longrightarrow> digit_char a < digit_char b \<longleftrightarrow> a < b"
  by (simp add: less_char_def of_char_digit_char)

lemma digit_char_eq:
  assumes "a < 10" and "b < 10"
  shows "digit_char a = digit_char b \<longleftrightarrow> a = b"
proof
  assume "digit_char a = digit_char b"
  then have "digit_val (digit_char a) = digit_val (digit_char b)" by simp
  then show "a = b" by (simp only: digit_char(2) [OF assms(1)] digit_char(2) [OF assms(2)])
qed simp

lemma less_by_digits:
  fixes n n' :: nat
  shows "n < n' \<longleftrightarrow> n div 10 < n' div 10 \<or> n div 10 = n' div 10 \<and> n mod 10 < n' mod 10"
proof -
  have "n = 10 * (n div 10) + n mod 10" and "n' = 10 * (n' div 10) + n' mod 10" by simp_all
  moreover have "n mod 10 < 10" and "n' mod 10 < 10" by simp_all
  ultimately show ?thesis by linarith
qed

lemma eq_by_digits:
  fixes n n' :: nat
  shows "n = n' \<longleftrightarrow> n div 10 = n' div 10 \<and> n mod 10 = n' mod 10"
  by (metis div_mult_mod_eq)

text \<open>
  On zero-padded two-digit fields the order of the strings is the order of the times.
\<close>

lemma HHMM_order:
  assumes "h < 100" "m < 100" "h' < 100" "m' < 100"
  shows "HHMM h m \<le> HHMM h' m' \<longleftrightarrow> h < h' \<or> h = h' \<and> m \<le> m'"
proof -
  have d: "h div 10 < 10" "h mod 10 < 10" "m div 10 < 10" "m mod 10 < 10"
    "h' div 10 < 10" "h' mod 10 < 10" "m' div 10 < 10" "m' mod 10 < 10"
    using assms by simp_all
  have "HHMM h m \<le> HHMM h' m' \<longleftrightarrow>
      h div 10 < h' div 10 \<or> h div 10 = h' div 10 \<and>
        (h mod 10 < h' mod 10 \<or> h mod 10 = h' mod 10 \<and>
          (m div 10 < m' div 10 \<or> m div 10 = m' div 10 \<and>
            (m mod 10 < m' mod 10 \<or> m mod 10 = m' mod 10)))"
    unfolding HHMM_chars [OF assms(1,2)] HHMM_chars [OF assms(3,4)]
    using d by (simp add: digit_char_less digit_char_eq le_less) blast
  also have "\<dots> \<longleftrightarrow> h < h' \<or> h = h' \<and> (m < m' \<or> m = m')"
    unfolding less_by_digits [of h h'] eq_by_digits [of h h'] less_by_digits [of m m']
      eq_by_digits [of m m'] by blast
  finally show ?thesis by (simp add: le_less)
qed


lemma tasks_replaced [simp]: "tasks (al\<lparr>tasks := ts\<rparr>) = ts"
  by simp



section \<open>Loading, saving and deleting\<close>

text \<open>
  C7. When the read rejects, or the stored text does not parse, \<open>loadData\<close> catches
  the error: it returns the state with the lists set to the built-in \<open>INITIAL_DATA\<close> and
  a line on the console, and nothing propagates. \<open>loadTasks\<close> catches it too and leaves
  the state as it was, which at the time of loading is the initial state with no tasks.
\<close>

theorem failed_load_falls_back:
  "((storage_rejects e \<or> (\<exists>txt. storage w STORAGE_KEY = Some txt \<and> parse_lists txt = None)) \<longrightarrow>
      loadData parse_lists uid e (st, w)
        = (st\<lparr>lists := INITIAL_DATA uid\<rparr>, console_error ''Failed to load data.'' w)) \<and>
   ((storage_rejects e \<or>
      (\<exists>txt. storage w TASKS_KEY = Some txt \<and> txt \<noteq> [] \<and> parse_tasks txt = None)) \<longrightarrow>
      loadTasks parse_tasks e (mst, w) = (mst, console_error ''Error loading tasks:'' w)) \<and>
   all_tasks initial_manager_state = []"
  by (auto simp: loadData_def loadTasks_def Let_def initial_manager_state_def)

theorem failed_load_falls_back_witness:
  "storage (empty_world\<lparr>storage := [STORAGE_KEY \<mapsto> ''[{'']\<rparr>) STORAGE_KEY = Some ''[{'' \<and>
   lists (fst (loadData parse_fails ''L'' (sample_env no_reject)
     (initial_app_state, empty_world\<lparr>storage := [STORAGE_KEY \<mapsto> ''[{'']\<rparr>))) = INITIAL_DATA ''L'' \<and>
   storage_rejects (manager_env True no_reject) \<and>
   all_tasks (fst (loadTasks parse_fails (manager_env True no_reject)
     (initial_manager_state, empty_world))) = []"
proof -
  let ?w = "empty_world\<lparr>storage := [STORAGE_KEY \<mapsto> ''[{'']\<rparr>"
  have a: "storage ?w STORAGE_KEY = Some ''[{''" by simp
  have b: "storage_rejects (manager_env True no_reject)" by (simp add: manager_env_def)
  from a have a': "storage_rejects (sample_env no_reject) \<or>
       (\<exists>txt. storage ?w STORAGE_KEY = Some txt \<and> parse_fails txt = None)"
    by simp
  from failed_load_falls_back [of "sample_env no_reject" ?w parse_fails "''L''" initial_app_state
      parse_fails initial_manager_state] a'
  have "loadData parse_fails ''L'' (sample_env no_reject) (initial_app_state, ?w)
        = (initial_app_state\<lparr>lists := INITIAL_DATA ''L''\<rparr>, console_error ''Failed to load data.'' ?w)"
    by blast
  then have l: "lists (fst (loadData parse_fails ''L'' (sample_env no_reject) (initial_app_state, ?w)))
      = INITIAL_DATA ''L''" by simp
  from failed_load_falls_back [of "manager_env True no_reject" empty_world parse_fails "''L''"
      initial_app_state parse_fails initial_manager_state] b
  have "loadTasks parse_fails (manager_env True no_reject) (initial_manager_state, empty_world)
      = (initial_manager_state, console_error ''Error loading tasks:'' empty_world)"
    and "all_tasks initial_manager_state = []"
    by blast+
  then have m: "all_tasks (fst (loadTasks parse_fails (manager_env True no_reject)
     (initial_manager_state, empty_world))) = []" by simp
  from a b l m show ?thesis by blast
qed

text \<open>
  C8, as the code has it. When the storage write rejects, \<open>saveData\<close> of the timetable
  screen has already set the lists to the new value; it logs the error and returns.
  \<open>saveTasks\<close> of the task manager sets the state only after the write, so when the write
  rejects it logs the error and the tasks in memory stay as they were. When the write
  is acknowledged both hold the new value in memory and in the store.
\<close>

theorem failed_save_keeps_memory:
  "(storage_rejects e \<longrightarrow>
      saveData J e newLists (st, w)
        = (st\<lparr>lists := newLists\<rparr>, console_error ''Failed to save data.'' w) \<and>
      saveTasks J' e updatedTasks (mst, w) = (mst, console_error ''Error saving tasks:'' w)) \<and>
   (\<not> storage_rejects e \<longrightarrow>
      lists (fst (saveData J e newLists (st, w))) = newLists \<and>
      storage (snd (saveData J e newLists (st, w))) STORAGE_KEY = Some (J newLists) \<and>
      all_tasks (fst (saveTasks J' e updatedTasks (mst, w))) = updatedTasks \<and>
      storage (snd (saveTasks J' e updatedTasks (mst, w))) TASKS_KEY = Some (J' updatedTasks))"
  by (simp add: saveData_def saveTasks_def Let_def)

theorem failed_save_keeps_memory_witness:
  "storage_rejects (manager_env True no_reject) \<and>
   lists (fst (saveData sample_json (manager_env True no_reject) [two_items]
     (initial_app_state, empty_world))) = [two_items] \<and>
   console (snd (saveData sample_json (manager_env True no_reject) [two_items]
     (initial_app_state, empty_world))) = [''Failed to save data.''] \<and>
   saveTasks tasks_json (manager_env True no_reject) [sample_task]
     (initial_manager_state, empty_world)
     = (initial_manager_state, console_error ''Error saving tasks:'' empty_world) \<and>
   \<not> storage_rejects (manager_env False no_reject) \<and>
   all_tasks (fst (saveTasks tasks_json (manager_env False no_reject) [sample_task]
     (initial_manager_state, empty_world))) = [sample_task]"
proof -
  have a: "storage_rejects (manager_env True no_reject)"
    and b: "\<not> storage_rejects (manager_env False no_reject)"
    by (simp_all add: manager_env_def)
  note T = failed_save_keeps_memory [of "manager_env True no_reject" sample_json "[two_items]"
      initial_app_state empty_world tasks_json "[sample_task]" initial_manager_state]
  note U = failed_save_keeps_memory [of "manager_env False no_reject" sample_json "[two_items]"
      initial_app_state empty_world tasks_json "[sample_task]" initial_manager_state]
  from T a have t1: "saveData sample_json (manager_env True no_reject) [two_items]
        (initial_app_state, empty_world)
        = (initial_app_state\<lparr>lists := [two_items]\<rparr>, console_error ''Failed to save data.'' empty_world)"
    and t2: "saveTasks tasks_json (manager_env True no_reject) [sample_task]
        (initial_manager_state, empty_world)
        = (initial_manager_state, console_error ''Error saving tasks:'' empty_world)"
    by blast+
  from U b have u: "all_tasks (fst (saveTasks tasks_json (manager_env False no_reject)
      [sample_task] (initial_manager_state, empty_world))) = [sample_task]"
    by blast
  from t1 have "lists (fst (saveData sample_json (manager_env True no_reject) [two_items]
     (initial_app_state, empty_world))) = [two_items]"
    and "console (snd (saveData sample_json (manager_env True no_reject) [two_items]
     (initial_app_state, empty_world))) = [''Failed to save data.'']"
    by (simp_all add: console_error_def empty_world_def)
  with a b t2 u show ?thesis by blast
qed

text \<open>
  C8 as stated fails for \<open>saveTasks\<close>: after a rejected write of one task the tasks in
  memory are still empty.
\<close>

theorem failed_save_counterexample:
  "storage_rejects (manager_env True no_reject) \<and>
   all_tasks (fst (saveTasks tasks_json (manager_env True no_reject) [sample_task]
     (initial_manager_state, empty_world))) = [] \<and>
   [sample_task] \<noteq> []"
  by (simp add: saveTasks_def manager_env_def initial_manager_state_def)

text \<open>
  C5, as the code has it. In the task manager, confirming the deletion of a task issues
  exactly one \<open>cancelNotification(taskId)\<close> and no other port call, and cancelling the
  dialog issues none; the task leaves the state when the write is acknowledged. In the
  timetable screen, \<open>handleDeleteTask\<close> removes the item from the active list and issues
  no port call at all: the live notifications are what they were.
\<close>

theorem delete_port_calls:
  "calls (snd (deleteTask J taskId Delete_button e (mst, w)))
     = calls w @ [CancelNotification taskId] \<and>
   calls (snd (deleteTask J taskId Cancel_button e (mst, w))) = calls w \<and>
   (\<not> storage_rejects e \<longrightarrow>
      all_tasks (fst (deleteTask J taskId Delete_button e (mst, w)))
        = filter (\<lambda>t. task_id t \<noteq> taskId) (all_tasks mst)) \<and>
   calls (snd (handleDeleteTask J' itemId e (st, w))) = calls w \<and>
   live (snd (handleDeleteTask J' itemId e (st, w))) = live w \<and>
   (getActiveList st = Some al \<longrightarrow>
      lists (fst (handleDeleteTask J' itemId e (st, w)))
        = replace_tasks st (filter (\<lambda>t. item_id t \<noteq> itemId) (tasks al)))"
  by (simp add: deleteTask_def saveTasks_def Let_def Alert_alert_def console_error_def
      port_call_def handleDeleteTask_def saveData_def split: option.splits)


theorem delete_port_calls_witness:
  "calls (snd (deleteTask tasks_json ''t1'' Delete_button (manager_env False no_reject)
     (initial_manager_state\<lparr>all_tasks := [sample_task]\<rparr>, empty_world)))
     = [CancelNotification ''t1''] \<and>
   \<not> storage_rejects (manager_env False no_reject) \<and>
   all_tasks (fst (deleteTask tasks_json ''t1'' Delete_button (manager_env False no_reject)
     (initial_manager_state\<lparr>all_tasks := [sample_task]\<rparr>, empty_world))) = [] \<and>
   getActiveList (sample_state [two_items]) = Some two_items \<and>
   calls (snd (handleDeleteTask sample_json ''1'' (sample_env no_reject)
     (sample_state [two_items], empty_world))) = [] \<and>
   map (map item_id \<circ> tasks) (lists (fst (handleDeleteTask sample_json ''1''
     (sample_env no_reject) (sample_state [two_items], empty_world)))) = [ [''2''] ]"
proof -
  have a: "\<not> storage_rejects (manager_env False no_reject)"
    by (simp add: manager_env_def)
  have b: "getActiveList (sample_state [two_items]) = Some two_items"
    by (simp add: getActiveList_def sample_state_def two_items_def)
  note T = delete_port_calls [of tasks_json "''t1''" "manager_env False no_reject"
      "initial_manager_state\<lparr>all_tasks := [sample_task]\<rparr>" empty_world sample_json "''1''"
      "sample_state [two_items]" two_items]
  note U = delete_port_calls [of tasks_json "''t1''" "sample_env no_reject"
      "initial_manager_state\<lparr>all_tasks := [sample_task]\<rparr>" empty_world sample_json "''1''"
      "sample_state [two_items]" two_items]
  from T have t1: "calls (snd (deleteTask tasks_json ''t1'' Delete_button (manager_env False no_reject)
     (initial_manager_state\<lparr>all_tasks := [sample_task]\<rparr>, empty_world)))
     = calls empty_world @ [CancelNotification ''t1'']"
    by blast
  from T a have t2: "all_tasks (fst (deleteTask tasks_json ''t1'' Delete_button (manager_env False no_reject)
     (initial_manager_state\<lparr>all_tasks := [sample_task]\<rparr>, empty_world)))
       = filter (\<lambda>t. task_id t \<noteq> ''t1'') (all_tasks (initial_manager_state\<lparr>all_tasks := [sample_task]\<rparr>))"
    by blast
  from U have u1: "calls (snd (handleDeleteTask sample_json ''1'' (sample_env no_reject)
     (sample_state [two_items], empty_world))) = calls empty_world"
    by blast
  from U b have u2: "lists (fst (handleDeleteTask sample_json ''1'' (sample_env no_reject)
     (sample_state [two_items], empty_world)))
       = replace_tasks (sample_state [two_items]) (filter (\<lambda>t. item_id t \<noteq> ''1'') (tasks two_items))"
    by blast
  have e1: "calls empty_world = []" by (simp add: empty_world_def)
  have e2: "filter (\<lambda>t. task_id t \<noteq> ''t1'') (all_tasks (initial_manager_state\<lparr>all_tasks := [sample_task]\<rparr>)) = []"
    by (simp add: sample_task_def)
  have e3: "map (map item_id \<circ> tasks)
      (replace_tasks (sample_state [two_items]) (filter (\<lambda>t. item_id t \<noteq> ''1'') (tasks two_items)))
      = [ [''2''] ]"
    by (simp add: replace_tasks_def sample_state_def two_items_def)
  from t1 t2 u1 u2 a b show ?thesis
    unfolding e1 e2 by (simp add: e3)
qed

text \<open>
  C5 as stated fails in the timetable screen: item 1 is scheduled, it is removed, and no
  cancel is issued; its notification is still live.
\<close>

theorem delete_counterexample:
  "live scheduled_world ''1'' \<noteq> None \<and>
   map (map item_id \<circ> tasks) (lists (fst (handleDeleteTask sample_json ''1''
     (sample_env no_reject) (sample_state [two_items], scheduled_world)))) = [ [''2''] ] \<and>
   calls (snd (handleDeleteTask sample_json ''1'' (sample_env no_reject)
     (sample_state [two_items], scheduled_world))) = calls scheduled_world \<and>
   CancelNotification ''1'' \<notin> set (calls scheduled_world) \<and>
   live (snd (handleDeleteTask sample_json ''1'' (sample_env no_reject)
     (sample_state [two_items], scheduled_world))) ''1'' \<noteq> None"
  by (simp add: scheduled_world_def sample_env_def two_items_def sample_state_def empty_world_def
      scheduleAllNotifications_def schedule_try_def getActiveList_def Let_def Alert_alert_def
      triggerOp_def handleDeleteTask_def saveData_def replace_tasks_def)

section \<open>Adding a task in the task manager\<close>


lemma non_empty_cases:
  "(case (non_empty d, non_empty tm) of (Some d', Some tm') \<Rightarrow> f d' tm' | _ \<Rightarrow> g)
     = (if d \<noteq> [] \<and> tm \<noteq> [] then f d tm else g)"
  by (simp add: non_empty_def)








end
